theory Spec2Isabelle
  imports Complex_Main
begin

section \<open>Tensors and the TensorFlow primitives used by aae.py\<close>

text \<open>
  A rank-2 float tensor is a list of rows (one row per sample of the batch). The numbers
  fed to the graph are finite, so they are reals here. The claims about which formula the
  graph computes are settled on exact arithmetic, the definitions of this section: an
  operation whose result may be non-finite (the logarithm, the mean of an empty tensor)
  returns an \<open>fval\<close>, where \<open>None\<close> stands for NaN or an infinity, and every
  arithmetic operation applied to it gives \<open>None\<close> again. The claims that depend on
  rounding, underflow or saturation are settled on the float32 operations of the section
  on float32 arithmetic below.
\<close>

type_synonym tensor = "real list list"
type_synonym fval = "real option"

datatype error =
    AttributeError string
  | InvalidArgumentError string

definition nrows :: "'a list list \<Rightarrow> nat" where
  "nrows t = length t"

definition ncols :: "'a list list \<Rightarrow> nat" where
  "ncols t = (case t of [] \<Rightarrow> 0 | r # _ \<Rightarrow> length r)"

definition has_shape :: "'a list list \<Rightarrow> nat \<Rightarrow> nat \<Rightarrow> bool" where
  "has_shape t n c = (length t = n \<and> list_all (\<lambda>r. length r = c) t)"

text \<open>Broadcasting of one dimension: equal sizes, or one of them is 1.\<close>

definition bcast_dim :: "nat \<Rightarrow> nat \<Rightarrow> nat option" where
  "bcast_dim m n =
     (if m = n then Some m else if m = 1 then Some n else if n = 1 then Some m else None)"

definition pick :: "nat \<Rightarrow> nat \<Rightarrow> nat" where
  "pick n i = (if n = 1 then 0 else i)"

text \<open>
  A binary elementwise operator on two rank-2 tensors (\<open>a - b\<close>, \<open>a + b\<close>):
  the shapes are broadcast dimension by dimension, and incompatible shapes are refused.
\<close>

definition elementwise ::
  "('a \<Rightarrow> 'b \<Rightarrow> 'c) \<Rightarrow> 'a list list \<Rightarrow> 'b list list \<Rightarrow> error + 'c list list" where
  "elementwise f a b =
     (case (bcast_dim (nrows a) (nrows b), bcast_dim (ncols a) (ncols b)) of
        (Some r, Some c) \<Rightarrow>
          Inr (map (\<lambda>i. map (\<lambda>j. f (a ! pick (nrows a) i ! pick (ncols a) j)
                                    (b ! pick (nrows b) i ! pick (ncols b) j)) [0..<c]) [0..<r])
      | _ \<Rightarrow> Inl (InvalidArgumentError ''Incompatible shapes''))"

definition tf_square :: "tensor \<Rightarrow> tensor" where
  "tf_square t = map (map (\<lambda>x. x * x)) t"

definition tf_reduce_sum_axis1 :: "tensor \<Rightarrow> real list" where
  "tf_reduce_sum_axis1 t = map sum_list t"

text \<open>\<open>tf.reduce_mean\<close> over all elements; the mean of no element is NaN.\<close>

definition tf_reduce_mean :: "real list \<Rightarrow> fval" where
  "tf_reduce_mean xs = (if xs = [] then None else Some (sum_list xs / real (length xs)))"

definition tf_reduce_mean_f :: "fval list \<Rightarrow> fval" where
  "tf_reduce_mean_f xs = (case those xs of None \<Rightarrow> None | Some ys \<Rightarrow> tf_reduce_mean ys)"

definition tf_sigmoid :: "real \<Rightarrow> real" where
  "tf_sigmoid x = 1 / (1 + exp (- x))"

text \<open>\<open>tf.log\<close>: minus infinity at 0 and NaN below 0.\<close>

definition tf_log :: "real \<Rightarrow> fval" where
  "tf_log x = (if 0 < x then Some (ln x) else None)"

definition fadd :: "fval \<Rightarrow> fval \<Rightarrow> fval" where
  "fadd a b = (case (a, b) of (Some x, Some y) \<Rightarrow> Some (x + y) | _ \<Rightarrow> None)"

definition fneg :: "fval \<Rightarrow> fval" where
  "fneg a = map_option uminus a"

definition one_minus :: "fval \<Rightarrow> fval" where
  "one_minus a = map_option (\<lambda>x. 1 - x) a"

subsection \<open>The three loss formulas\<close>

text \<open>
  Line 68:
  \<^verbatim>\<open>tf.reduce_mean(tf.reduce_sum(tf.square(self.recon_imgs - self.X), axis=1))\<close>
\<close>

definition recon_loss_of :: "tensor \<Rightarrow> tensor \<Rightarrow> error + fval" where
  "recon_loss_of recon X =
     (case elementwise (\<lambda>r x. r - x) recon X of
        Inl e \<Rightarrow> Inl e
      | Inr d \<Rightarrow> Inr (tf_reduce_mean (tf_reduce_sum_axis1 (tf_square d))))"

text \<open>
  Line 80:
  \<^verbatim>\<open>-tf.reduce_mean(tf.log(tf.sigmoid(true_logits) + TINY) + tf.log(1. - tf.sigmoid(fake_logits) + TINY))\<close>
\<close>

definition L_D_of :: "real \<Rightarrow> tensor \<Rightarrow> tensor \<Rightarrow> error + fval" where
  "L_D_of TINY true_logits fake_logits =
     (case elementwise fadd
             (map (map (\<lambda>x. tf_log (tf_sigmoid x + TINY))) true_logits)
             (map (map (\<lambda>x. tf_log (1 - tf_sigmoid x + TINY))) fake_logits) of
        Inl e \<Rightarrow> Inl e
      | Inr s \<Rightarrow> Inr (fneg (tf_reduce_mean_f (concat s))))"

text \<open>
  Lines 84 and 86:
  \<^verbatim>\<open>tf.reduce_mean(1. - tf.log(tf.sigmoid(fake_logits) + TINY))\<close> and
  \<^verbatim>\<open>-tf.reduce_mean(tf.log(tf.sigmoid(fake_logits) + TINY))\<close>
\<close>

definition L_G1_of :: "real \<Rightarrow> tensor \<Rightarrow> fval" where
  "L_G1_of TINY fake_logits =
     tf_reduce_mean_f (concat (map (map (\<lambda>x. one_minus (tf_log (tf_sigmoid x + TINY)))) fake_logits))"

definition L_G2_of :: "real \<Rightarrow> tensor \<Rightarrow> fval" where
  "L_G2_of TINY fake_logits =
     fneg (tf_reduce_mean_f (concat (map (map (\<lambda>x. tf_log (tf_sigmoid x + TINY))) fake_logits)))"

subsection \<open>The formulas as the specification words them\<close>

text \<open>Mean over the batch of the sum over the features of the squared error.\<close>

definition spec_recon_loss :: "tensor \<Rightarrow> tensor \<Rightarrow> real" where
  "spec_recon_loss recon X =
     (\<Sum>i<length X. \<Sum>j<length (X ! i). (recon ! i ! j - X ! i ! j)\<^sup>2) / real (length X)"

text \<open>Mean over all \<open>n * k\<close> entries of a quantity indexed by sample and column.\<close>

definition mean_all :: "nat \<Rightarrow> nat \<Rightarrow> (nat \<Rightarrow> nat \<Rightarrow> real) \<Rightarrow> real" where
  "mean_all n k g = (\<Sum>i<n. \<Sum>j<k. g i j) / real (n * k)"

definition spec_L_D :: "real \<Rightarrow> tensor \<Rightarrow> tensor \<Rightarrow> real" where
  "spec_L_D eps true_logits fake_logits =
     - mean_all (length true_logits) (ncols true_logits)
         (\<lambda>i j. ln (tf_sigmoid (true_logits ! i ! j) + eps)
               + ln (1 - tf_sigmoid (fake_logits ! i ! j) + eps))"

definition spec_L_G1 :: "real \<Rightarrow> tensor \<Rightarrow> real" where
  "spec_L_G1 eps fake_logits =
     mean_all (length fake_logits) (ncols fake_logits)
       (\<lambda>i j. 1 - ln (tf_sigmoid (fake_logits ! i ! j) + eps))"

definition spec_L_G2 :: "real \<Rightarrow> tensor \<Rightarrow> real" where
  "spec_L_G2 eps fake_logits =
     - mean_all (length fake_logits) (ncols fake_logits)
         (\<lambda>i j. ln (tf_sigmoid (fake_logits ! i ! j) + eps))"

section \<open>The graph, the session and the imported names\<close>

text \<open>
  A placeholder is its name and its number of columns (the static shape is
  \<open>(None, columns)\<close>). A feed dictionary maps placeholders to batches. The variables of
  the session are a store from variable names to values; the slot variables of the
  optimizers live in stores of their own, one per optimizer instance.
  A graph tensor is what a run of the session computes for it from the feeds and the
  variables.
\<close>

type_synonym placeholder = "string \<times> nat"
type_synonym feed_dict = "(placeholder \<times> tensor) list"
type_synonym store = "string \<Rightarrow> tensor"
type_synonym 'a node = "feed_dict \<Rightarrow> store \<Rightarrow> error + 'a"
type_synonym summary = "string \<times> fval"
type_synonym writer = "(summary \<times> int) list"

record session =
  variables :: store
  opt_slots :: "nat \<Rightarrow> store"

type_synonym train_op = "feed_dict \<Rightarrow> session \<Rightarrow> error + session"

definition bindE :: "error + 'a \<Rightarrow> ('a \<Rightarrow> error + 'b) \<Rightarrow> error + 'b" where
  "bindE m f = (case m of Inl e \<Rightarrow> Inl e | Inr v \<Rightarrow> f v)"

definition read_placeholder :: "placeholder \<Rightarrow> tensor node" where
  "read_placeholder p fd st =
     (case map_of fd p of
        None \<Rightarrow> Inl (InvalidArgumentError ''You must feed a value for placeholder tensor'')
      | Some t \<Rightarrow> Inr t)"

definition tf_summary_scalar :: "string \<Rightarrow> fval node \<Rightarrow> summary node" where
  "tf_summary_scalar name t fd st = bindE (t fd st) (\<lambda>v. Inr (name, v))"

text \<open>
  The networks of \<open>models.py\<close> are not part of the sources at hand: a network is taken
  as what its call computes from the variables, its inputs and the \<open>is_training\<close> flag
  (or the error it raises), together with the list of the names of its variables
  (\<open>get_variables()\<close>).
\<close>

record network =
  call :: "store \<Rightarrow> tensor \<Rightarrow> bool \<Rightarrow> error + tensor"
  get_variables :: "string list"

record cond_network =
  call2 :: "store \<Rightarrow> tensor \<Rightarrow> tensor \<Rightarrow> bool \<Rightarrow> error + tensor"
  get_variables2 :: "string list"

text \<open>
  An optimizer computes, from the loss as a function of the variables, the list of the
  variables to train, its slots and the current variables, the new values of the trained
  variables and its new slots. The gradient computation belongs to the framework.
\<close>

type_synonym optimizer =
  "(store \<Rightarrow> error + fval) \<Rightarrow> string list \<Rightarrow> store \<Rightarrow> store \<Rightarrow> store \<times> store"

text \<open>The names aae.py imports: \<open>utils.TINY\<close>, the three network classes, the two
  optimizers and \<open>np.random.standard_normal\<close> (on the state of numpy's generator).\<close>

record imported =
  TINY :: real
  Encoder :: "nat \<Rightarrow> network"
  Decoder :: "nat \<Rightarrow> network"
  Discriminator :: "nat \<Rightarrow> nat \<Rightarrow> cond_network"
  AdamOptimizer :: "real \<Rightarrow> optimizer"
  GradientDescentOptimizer :: "real \<Rightarrow> optimizer"
  standard_normal :: "nat \<Rightarrow> nat \<times> nat \<Rightarrow> tensor \<times> nat"

text \<open>
  \<open>optimizer.minimize(loss, var_list)\<close>: one run evaluates the loss, and assigns the new
  values to the variables of \<open>var_list\<close> and to no other variable. \<open>k\<close> numbers the
  optimizer instance.
\<close>

definition minimize :: "optimizer \<Rightarrow> nat \<Rightarrow> fval node \<Rightarrow> string list \<Rightarrow> train_op" where
  "minimize opt k loss var_list fd s =
     bindE (loss fd (variables s)) (\<lambda>_.
       let (new, slots') = opt (loss fd) var_list (opt_slots s k) (variables s)
       in Inr (s\<lparr>variables := (\<lambda>v. if v \<in> set var_list then new v else variables s v),
                 opt_slots := (opt_slots s)(k := slots')\<rparr>))"

text \<open>\<open>sess.run\<close> refuses a fed value whose rows do not have the placeholder's number of
  columns; then it evaluates the fetches. A fetched loss is the one the update is computed
  from, so it is evaluated on the variables before the update.\<close>

definition feeds_ok :: "feed_dict \<Rightarrow> bool" where
  "feeds_ok fd = list_all (\<lambda>(p, t). list_all (\<lambda>r. length r = snd p) t) fd"

definition sess_run :: "'a node \<Rightarrow> feed_dict \<Rightarrow> session \<Rightarrow> error + 'a" where
  "sess_run fetch fd s =
     (if feeds_ok fd then fetch fd (variables s)
      else Inl (InvalidArgumentError ''Cannot feed value of this shape''))"

definition sess_run_train ::
  "train_op \<Rightarrow> fval node \<Rightarrow> summary node \<Rightarrow> feed_dict \<Rightarrow> session
     \<Rightarrow> error + (fval \<times> summary \<times> session)" where
  "sess_run_train op loss summ fd s =
     (if feeds_ok fd then
        bindE (loss fd (variables s)) (\<lambda>l.
        bindE (summ fd (variables s)) (\<lambda>sm.
        bindE (op fd s) (\<lambda>s'. Inr (l, sm, s'))))
      else Inl (InvalidArgumentError ''Cannot feed value of this shape''))"

definition add_summary :: "writer \<Rightarrow> summary \<Rightarrow> int \<Rightarrow> writer" where
  "add_summary w sm k = w @ [(sm, k)]"

section \<open>The class AAE\<close>

text \<open>The attributes of an AAE object; those that \<open>build\<close> assigns are absent before.\<close>

record aae =
  input_dim :: nat
  z_dim :: nat
  num_classes :: nat
  batch_size :: nat
  learning_rate :: real
  step :: int
  X :: placeholder
  y_labels :: placeholder
  z_inputs :: placeholder
  encoder :: network
  decoder :: network
  discriminator :: cond_network
  q_z :: "tensor node option"
  recon_imgs :: "tensor node option"
  recon_loss :: "fval node option"
  recon_loss_summary :: "summary node option"
  L_D :: "fval node option"
  L_D_summary :: "summary node option"
  L_G :: "fval node option"
  L_G_summary :: "summary node option"
  vae_train_op :: "train_op option"
  disc_train_op :: "train_op option"
  gen_train_op :: "train_op option"
  latent_space :: "tensor node option"
  generated_imgs :: "tensor node option"

definition init :: "imported \<Rightarrow> nat \<Rightarrow> nat \<Rightarrow> nat \<Rightarrow> nat \<Rightarrow> real \<Rightarrow> aae" where
  "init I input_dim' z_dim' num_classes' batch_size' learning_rate' =
     \<lparr> input_dim = input_dim', z_dim = z_dim', num_classes = num_classes',
       batch_size = batch_size', learning_rate = learning_rate', step = 0,
       X = (''X_inputs'', input_dim'),
       y_labels = (''y_labels'', num_classes' + 1),
       z_inputs = (''z_inputs'', z_dim'),
       encoder = Encoder I z_dim',
       decoder = Decoder I z_dim',
       discriminator = Discriminator I z_dim' num_classes',
       q_z = None, recon_imgs = None, recon_loss = None, recon_loss_summary = None,
       L_D = None, L_D_summary = None, L_G = None, L_G_summary = None,
       vae_train_op = None, disc_train_op = None, gen_train_op = None,
       latent_space = None, generated_imgs = None \<rparr>"

definition build_VAE_network :: "aae \<Rightarrow> aae" where
  "build_VAE_network self =
     (let q = (\<lambda>fd st. bindE (read_placeholder (X self) fd st)
                 (\<lambda>x. call (encoder self) st x True));
          r = (\<lambda>fd st. bindE (q fd st) (\<lambda>z. call (decoder self) st z True));
          l = (\<lambda>fd st. bindE (r fd st) (\<lambda>rc. bindE (read_placeholder (X self) fd st)
                 (\<lambda>x. recon_loss_of rc x)))
      in self\<lparr>q_z := Some q, recon_imgs := Some r, recon_loss := Some l,
              recon_loss_summary := Some (tf_summary_scalar ''Reconstruct_Loss'' l)\<rparr>)"

text \<open>A method that may raise returns the exception, if any, and the object as the
  assignments made before have left it. Variable scopes and \<open>reuse_variables()\<close> decide
  which variables a call of a network reads; here every call reads the one store of the
  session, so the two calls of the discriminator share their weights.\<close>

definition build_GAN_network :: "imported \<Rightarrow> int \<Rightarrow> aae \<Rightarrow> error option \<times> aae" where
  "build_GAN_network I G_type self =
     (case q_z self of
        None \<Rightarrow> (Some (AttributeError ''q_z''), self)
      | Some q \<Rightarrow>
          let fake_logits = (\<lambda>fd st. bindE (q fd st) (\<lambda>z.
                bindE (read_placeholder (y_labels self) fd st)
                  (\<lambda>y. call2 (discriminator self) st z y True)));
              true_logits = (\<lambda>fd st. bindE (read_placeholder (z_inputs self) fd st) (\<lambda>z.
                bindE (read_placeholder (y_labels self) fd st)
                  (\<lambda>y. call2 (discriminator self) st z y True)));
              ld = (\<lambda>fd st. bindE (true_logits fd st) (\<lambda>t.
                bindE (fake_logits fd st) (\<lambda>f. L_D_of (TINY I) t f)));
              self1 = self\<lparr>L_D := Some ld,
                           L_D_summary := Some (tf_summary_scalar ''Discriminator_Loss'' ld)\<rparr>;
              self2 =
                (if G_type = 1 then
                   self1\<lparr>L_G := Some (\<lambda>fd st. bindE (fake_logits fd st)
                                        (\<lambda>f. Inr (L_G1_of (TINY I) f)))\<rparr>
                 else if G_type = 2 then
                   self1\<lparr>L_G := Some (\<lambda>fd st. bindE (fake_logits fd st)
                                        (\<lambda>f. Inr (L_G2_of (TINY I) f)))\<rparr>
                 else self1)
          in (case L_G self2 of
                None \<Rightarrow> (Some (AttributeError ''L_G''), self2)
              | Some lg \<Rightarrow>
                  (None, self2\<lparr>L_G_summary := Some (tf_summary_scalar ''Generator_Loss'' lg)\<rparr>)))"

definition build_train_ops :: "imported \<Rightarrow> aae \<Rightarrow> error option \<times> aae" where
  "build_train_ops I self =
     (let encoder_train_vars = get_variables (encoder self);
          decoder_train_vars = get_variables (decoder self);
          disc_train_vars = get_variables2 (discriminator self)
      in case recon_loss self of
           None \<Rightarrow> (Some (AttributeError ''recon_loss''), self)
         | Some rl \<Rightarrow>
             let self1 = self\<lparr>vae_train_op := Some (minimize (AdamOptimizer I (learning_rate self)) 0
                                 rl (encoder_train_vars @ decoder_train_vars))\<rparr>
             in case L_D self1 of
                  None \<Rightarrow> (Some (AttributeError ''L_D''), self1)
                | Some ld \<Rightarrow>
                    let self2 = self1\<lparr>disc_train_op :=
                          Some (minimize (AdamOptimizer I (learning_rate self)) 1 ld disc_train_vars)\<rparr>
                    in case L_G self2 of
                         None \<Rightarrow> (Some (AttributeError ''L_G''), self2)
                       | Some lg \<Rightarrow>
                           (None, self2\<lparr>gen_train_op :=
                              Some (minimize (GradientDescentOptimizer I (learning_rate self)) 2
                                      lg encoder_train_vars)\<rparr>))"

definition build :: "imported \<Rightarrow> int \<Rightarrow> aae \<Rightarrow> error option \<times> aae" where
  "build I G_type self =
     (let self1 = build_VAE_network self
      in case build_GAN_network I G_type self1 of
           (Some e, self2) \<Rightarrow> (Some e, self2)
         | (None, self2) \<Rightarrow>
             (case build_train_ops I self2 of
                (Some e, self3) \<Rightarrow> (Some e, self3)
              | (None, self3) \<Rightarrow>
                  (None, self3\<lparr>
                     latent_space := Some (\<lambda>fd st. bindE (read_placeholder (X self3) fd st)
                                             (\<lambda>x. call (encoder self3) st x False)),
                     generated_imgs := Some (\<lambda>fd st. bindE (read_placeholder (z_inputs self3) fd st)
                                             (\<lambda>z. call (decoder self3) st z False))\<rparr>)))"

definition sample_StandarddNormal :: "imported \<Rightarrow> nat \<Rightarrow> nat \<times> nat \<Rightarrow> tensor \<times> nat" where
  "sample_StandarddNormal I rng shape = standard_normal I rng shape"

definition getattr :: "string \<Rightarrow> 'a option \<Rightarrow> error + 'a" where
  "getattr name v = (case v of None \<Rightarrow> Inl (AttributeError name) | Some a \<Rightarrow> Inr a)"

text \<open>
  The entry points return their result together with the object, the session and the
  writer as the call leaves them.
\<close>

definition log_summary :: "writer option \<Rightarrow> summary \<Rightarrow> int \<Rightarrow> writer option" where
  "log_summary writer sm k =
     (case writer of None \<Rightarrow> None | Some w \<Rightarrow> Some (add_summary w sm k))"

definition train_VAE ::
  "aae \<Rightarrow> tensor \<Rightarrow> session \<Rightarrow> writer option \<Rightarrow> error + (fval \<times> aae \<times> session \<times> writer option)" where
  "train_VAE self X' sess writer =
     bindE (getattr ''vae_train_op'' (vae_train_op self)) (\<lambda>op.
     bindE (getattr ''recon_loss'' (recon_loss self)) (\<lambda>loss.
     bindE (getattr ''recon_loss_summary'' (recon_loss_summary self)) (\<lambda>summ.
     bindE (sess_run_train op loss summ [(X self, X')] sess) (\<lambda>(recon_loss', sm, sess').
       Inr (recon_loss', self, sess', log_summary writer sm (step self))))))"

definition train_GENERATOR ::
  "aae \<Rightarrow> tensor \<Rightarrow> tensor \<Rightarrow> session \<Rightarrow> writer option
     \<Rightarrow> error + (fval \<times> aae \<times> session \<times> writer option)" where
  "train_GENERATOR self X' y sess writer =
     (let feed_dict = [(X self, X'), (y_labels self, y)]
      in bindE (getattr ''gen_train_op'' (gen_train_op self)) (\<lambda>op.
         bindE (getattr ''L_G'' (L_G self)) (\<lambda>loss.
         bindE (getattr ''L_G_summary'' (L_G_summary self)) (\<lambda>summ.
         bindE (sess_run_train op loss summ feed_dict sess) (\<lambda>(gen_loss, sm, sess').
           Inr (gen_loss, self, sess', log_summary writer sm (step self)))))))"

definition train_DISCRIMINATOR ::
  "imported \<Rightarrow> aae \<Rightarrow> tensor \<Rightarrow> tensor \<Rightarrow> session \<Rightarrow> writer option \<Rightarrow> nat
     \<Rightarrow> (error + (fval \<times> aae \<times> session \<times> writer option)) \<times> nat" where
  "train_DISCRIMINATOR I self X' y sess writer rng =
     (let (p_z, rng') = sample_StandarddNormal I rng (batch_size self, z_dim self);
          feed_dict = [(X self, X'), (y_labels self, y), (z_inputs self, p_z)]
      in (bindE (getattr ''disc_train_op'' (disc_train_op self)) (\<lambda>op.
          bindE (getattr ''L_D'' (L_D self)) (\<lambda>loss.
          bindE (getattr ''L_D_summary'' (L_D_summary self)) (\<lambda>summ.
          bindE (sess_run_train op loss summ feed_dict sess) (\<lambda>(disc_loss, sm, sess').
            Inr (disc_loss, self, sess', log_summary writer sm (step self)))))),
          rng'))"

section \<open>Float32 arithmetic\<close>

text \<open>
  A float32 value is a finite number, an infinity or NaN; the sign of zero is not kept.
  \<open>round32\<close> rounds a real to the nearest float32, ties to the even significand: the
  spacing of the floats around \<open>x\<close> is \<open>ulp32 x\<close> (24 significant bits, exponents from
  -126, subnormal numbers below), and a result of magnitude \<open>2 ^ 128\<close> or more is an
  infinity.
\<close>

datatype f32 = Fin real | PInf | NInf | NaN

definition round_half_even :: "real \<Rightarrow> int" where
  "round_half_even y =
     (let f = \<lfloor>y\<rfloor>; d = y - of_int f
      in if d < 1 / 2 then f else if 1 / 2 < d then f + 1 else if even f then f else f + 1)"

definition ulp32 :: "real \<Rightarrow> real" where
  "ulp32 x = 2 powr of_int (max \<lfloor>log 2 \<bar>x\<bar>\<rfloor> (- 126) - 23)"

definition round32 :: "real \<Rightarrow> f32" where
  "round32 x =
     (if x = 0 then Fin 0
      else let r = of_int (round_half_even (x / ulp32 x)) * ulp32 x
           in if 2 ^ 128 \<le> r then PInf else if r \<le> - (2 ^ 128) then NInf else Fin r)"

fun neg32 :: "f32 \<Rightarrow> f32" where
  "neg32 (Fin x) = Fin (- x)"
| "neg32 PInf = NInf"
| "neg32 NInf = PInf"
| "neg32 NaN = NaN"

fun add32 :: "f32 \<Rightarrow> f32 \<Rightarrow> f32" where
  "add32 (Fin x) (Fin y) = round32 (x + y)"
| "add32 NaN b = NaN"
| "add32 a NaN = NaN"
| "add32 PInf NInf = NaN"
| "add32 NInf PInf = NaN"
| "add32 PInf b = PInf"
| "add32 a PInf = PInf"
| "add32 NInf b = NInf"
| "add32 a NInf = NInf"

definition sub32 :: "f32 \<Rightarrow> f32 \<Rightarrow> f32" where
  "sub32 a b = add32 a (neg32 b)"


fun log32 :: "f32 \<Rightarrow> f32" where
  "log32 (Fin x) = (if 0 < x then round32 (ln x) else if x = 0 then NInf else NaN)"
| "log32 PInf = PInf"
| "log32 NInf = NaN"
| "log32 NaN = NaN"

text \<open>
  Sums run from left to right, rounding after each addition; the framework does not fix
  the order, and the properties proved below do not depend on it. \<open>reduce_mean\<close>
  divides the sum by the number of elements (0 / 0 is NaN).
\<close>

definition sum32 :: "f32 list \<Rightarrow> f32" where
  "sum32 xs = foldl add32 (Fin 0) xs"

definition div_count32 :: "f32 \<Rightarrow> nat \<Rightarrow> f32" where
  "div_count32 v n =
     (if n = 0 then NaN
      else case v of Fin x \<Rightarrow> round32 (x / real n) | PInf \<Rightarrow> PInf | NInf \<Rightarrow> NInf | NaN \<Rightarrow> NaN)"

definition reduce_mean32 :: "f32 list \<Rightarrow> f32" where
  "reduce_mean32 xs = div_count32 (sum32 xs) (length xs)"

text \<open>A float that is not negative: a finite number from 0 on, or plus infinity.\<close>

fun nonneg32 :: "f32 \<Rightarrow> bool" where
  "nonneg32 (Fin x) = (0 \<le> x)"
| "nonneg32 PInf = True"
| "nonneg32 NInf = False"
| "nonneg32 NaN = False"


text \<open>A finite float of magnitude at most \<open>B\<close>.\<close>

fun finite_within :: "real \<Rightarrow> f32 \<Rightarrow> bool" where
  "finite_within B (Fin r) = (\<bar>r\<bar> \<le> B)"
| "finite_within B PInf = False"
| "finite_within B NInf = False"
| "finite_within B NaN = False"

text \<open>
  Lines 80, 84 and 86 on float32 values. \<open>sigmoid32\<close> is what \<open>tf.sigmoid\<close> computes
  for a logit, a float of the closed interval from 0 to 1 (exactly 0 or 1 for logits of
  large magnitude); the Python constant \<open>TINY\<close> enters the graph rounded to float32;
  the computed logarithm is the rounded one.
\<close>

definition L_D32 :: "(real \<Rightarrow> real) \<Rightarrow> real \<Rightarrow> tensor \<Rightarrow> tensor \<Rightarrow> error + f32" where
  "L_D32 sigmoid32 TINY' true_logits fake_logits =
     (case elementwise add32
             (map (map (\<lambda>x. log32 (add32 (Fin (sigmoid32 x)) (round32 TINY')))) true_logits)
             (map (map (\<lambda>x. log32 (add32 (sub32 (Fin 1) (Fin (sigmoid32 x))) (round32 TINY'))))
                fake_logits) of
        Inl e \<Rightarrow> Inl e
      | Inr s \<Rightarrow> Inr (neg32 (reduce_mean32 (concat s))))"

definition L_G1_32 :: "(real \<Rightarrow> real) \<Rightarrow> real \<Rightarrow> tensor \<Rightarrow> f32" where
  "L_G1_32 sigmoid32 TINY' fake_logits =
     reduce_mean32 (concat (map (map
       (\<lambda>x. sub32 (Fin 1) (log32 (add32 (Fin (sigmoid32 x)) (round32 TINY'))))) fake_logits))"

definition L_G2_32 :: "(real \<Rightarrow> real) \<Rightarrow> real \<Rightarrow> tensor \<Rightarrow> f32" where
  "L_G2_32 sigmoid32 TINY' fake_logits =
     neg32 (reduce_mean32 (concat (map (map
       (\<lambda>x. log32 (add32 (Fin (sigmoid32 x)) (round32 TINY')))) fake_logits)))"

section \<open>The inference entry points and the random state\<close>

text \<open>
  A network of \<open>models.py\<close> may hold random operations (dropout and the like). Their
  generator belongs to the session and advances when they run, so for the inference
  entry points the session carries its state, and a call of a network returns the state
  it leaves together with its output.
\<close>

record seeded_network =
  seeded_call :: "store \<Rightarrow> nat \<Rightarrow> tensor \<Rightarrow> bool \<Rightarrow> (error + tensor) \<times> nat"
  seeded_variables :: "string list"

text \<open>
  Modelled from the spec: the classes \<open>Encoder\<close> and \<open>Decoder\<close> of \<open>models.py\<close>,
  which is not among the sources. The spec gives a network as a callable
  \<open>(input, is_training) -> tensor\<close> over its own parameters, and has the subgraphs built
  with \<open>is_training = False\<close> free of training-mode side effects: there the output is
  determined by the parameters and the input, and the random state is left alone. With
  \<open>is_training = True\<close> a network may draw from the random state.
\<close>

definition spec_network ::
  "(store \<Rightarrow> tensor \<Rightarrow> error + tensor) \<Rightarrow> (store \<Rightarrow> nat \<Rightarrow> tensor \<Rightarrow> (error + tensor) \<times> nat)
     \<Rightarrow> string list \<Rightarrow> seeded_network" where
  "spec_network inference training vs =
     \<lparr> seeded_call = (\<lambda>st g x is_training.
         if is_training then training st g x else (inference st x, g)),
       seeded_variables = vs \<rparr>"

record seeded_session = session +
  random_state :: nat

type_synonym 'a seeded_node = "feed_dict \<Rightarrow> store \<Rightarrow> nat \<Rightarrow> (error + 'a) \<times> nat"

definition seeded_run ::
  "'a seeded_node \<Rightarrow> feed_dict \<Rightarrow> seeded_session \<Rightarrow> (error + 'a) \<times> seeded_session" where
  "seeded_run fetch fd s =
     (if feeds_ok fd then
        let (r, g) = fetch fd (variables s) (random_state s) in (r, s\<lparr>random_state := g\<rparr>)
      else (Inl (InvalidArgumentError ''Cannot feed value of this shape''), s))"

text \<open>The attributes the inference entry points read, and the lines of \<open>build\<close> that
  assign them (65, 66 and 61).\<close>

record inference_aae =
  inf_X :: placeholder
  inf_encoder :: seeded_network
  inf_decoder :: seeded_network
  inf_q_z :: "tensor seeded_node option"
  inf_recon_imgs :: "tensor seeded_node option"
  inf_latent_space :: "tensor seeded_node option"

definition seeded_apply ::
  "seeded_network \<Rightarrow> bool \<Rightarrow> tensor seeded_node \<Rightarrow> tensor seeded_node" where
  "seeded_apply net is_training input fd st g =
     (case input fd st g of
        (Inl e, g') \<Rightarrow> (Inl e, g')
      | (Inr x, g') \<Rightarrow> seeded_call net st g' x is_training)"

definition seeded_placeholder :: "placeholder \<Rightarrow> tensor seeded_node" where
  "seeded_placeholder p fd st g = (read_placeholder p fd st, g)"

definition build_inference :: "inference_aae \<Rightarrow> inference_aae" where
  "build_inference self =
     (let q = seeded_apply (inf_encoder self) True (seeded_placeholder (inf_X self));
          r = seeded_apply (inf_decoder self) True q;
          l = seeded_apply (inf_encoder self) False (seeded_placeholder (inf_X self))
      in self\<lparr>inf_q_z := Some q, inf_recon_imgs := Some r, inf_latent_space := Some l\<rparr>)"

text \<open>Lines 143 to 153: the call returns the fetched value, or the exception, and the
  session as the run leaves it.\<close>

definition get_latent_space ::
  "inference_aae \<Rightarrow> seeded_session \<Rightarrow> tensor \<Rightarrow> (error + tensor) \<times> seeded_session" where
  "get_latent_space self sess X' =
     (case inf_latent_space self of
        None \<Rightarrow> (Inl (AttributeError ''latent_space''), sess)
      | Some t \<Rightarrow> seeded_run t [(inf_X self, X')] sess)"

definition get_reconstructed_images ::
  "inference_aae \<Rightarrow> seeded_session \<Rightarrow> tensor \<Rightarrow> (error + tensor) \<times> seeded_session" where
  "get_reconstructed_images self sess X' =
     (case inf_recon_imgs self of
        None \<Rightarrow> (Inl (AttributeError ''recon_imgs''), sess)
      | Some t \<Rightarrow> seeded_run t [(inf_X self, X')] sess)"

section \<open>A small concrete instance\<close>

definition example_encoder :: network where
  "example_encoder = \<lparr>call = (\<lambda>st t tr. Inr t), get_variables = [''enc/w'']\<rparr>"

definition example_decoder :: network where
  "example_decoder = \<lparr>call = (\<lambda>st t tr. Inr (map (map (\<lambda>v. 0)) t)), get_variables = [''dec/w'']\<rparr>"

definition example_discriminator :: cond_network where
  "example_discriminator = \<lparr>call2 = (\<lambda>st t y tr. Inr t), get_variables2 = [''disc/w'']\<rparr>"

definition example_optimizer :: optimizer where
  "example_optimizer loss var_list slots st = ((\<lambda>v. [[1]]), slots)"

definition example_imports :: imported where
  "example_imports =
     \<lparr> TINY = 1 / 2,
       Encoder = (\<lambda>z. example_encoder),
       Decoder = (\<lambda>z. example_decoder),
       Discriminator = (\<lambda>z k. example_discriminator),
       AdamOptimizer = (\<lambda>lr. example_optimizer),
       GradientDescentOptimizer = (\<lambda>lr. example_optimizer),
       standard_normal = (\<lambda>g (r, c). (replicate r (replicate c 0), Suc g)) \<rparr>"

definition example_session :: session where
  "example_session = \<lparr>variables = (\<lambda>v. [[0]]), opt_slots = (\<lambda>k v. [[0]])\<rparr>"

definition example_aae :: aae where
  "example_aae = snd (build example_imports 1 (init example_imports 1 1 1 1 (1 / 100)))"

definition saturated_sigmoid :: "real \<Rightarrow> real" where
  "saturated_sigmoid x = (if x \<le> - 104 then 0 else if 17 \<le> x then 1 else tf_sigmoid x)"

definition dropout_encoder :: seeded_network where
  "dropout_encoder =
     spec_network (\<lambda>st x. Inr x)
       (\<lambda>st g x. (Inr (if even g then x else map (map (\<lambda>v. 0)) x), Suc g)) [''enc/w'']"

definition plain_decoder :: seeded_network where
  "plain_decoder = spec_network (\<lambda>st x. Inr x) (\<lambda>st g x. (Inr x, g)) [''dec/w'']"

definition example_inference_aae :: inference_aae where
  "example_inference_aae =
     build_inference
       \<lparr> inf_X = (''X_inputs'', 2), inf_encoder = dropout_encoder, inf_decoder = plain_decoder,
         inf_q_z = None, inf_recon_imgs = None, inf_latent_space = None \<rparr>"

definition example_seeded_session :: seeded_session where
  "example_seeded_session =
     \<lparr>variables = (\<lambda>v. [[0]]), opt_slots = (\<lambda>k v. [[0]]), random_state = 0\<rparr>"

section \<open>Properties of the tensor primitives\<close>

lemma pick_lt: "i < n \<Longrightarrow> pick n i = i"
  by (auto simp: pick_def)

lemma has_shape_nrows: "has_shape t n c \<Longrightarrow> nrows t = n"
  by (simp add: has_shape_def nrows_def)

lemma has_shape_ncols: "has_shape t n c \<Longrightarrow> 0 < n \<Longrightarrow> ncols t = c"
  by (cases t) (auto simp: has_shape_def ncols_def)

lemma has_shape_ncols0: "has_shape t 0 c \<Longrightarrow> ncols t = 0"
  by (simp add: has_shape_def ncols_def)

lemma has_shape_row: "has_shape t n c \<Longrightarrow> i < n \<Longrightarrow> length (t ! i) = c"
  by (auto simp: has_shape_def list_all_length)

lemma bcast_dim_same: "bcast_dim n n = Some n"
  by (simp add: bcast_dim_def)

lemma elementwise_same_shape:
  assumes a: "has_shape a n c" and b: "has_shape b n c"
  shows "elementwise f a b
           = Inr (map (\<lambda>i. map (\<lambda>j. f (a ! i ! j) (b ! i ! j)) [0..<c]) [0..<n])"
proof (cases "n = 0")
  case True
  with a b show ?thesis
    by (simp add: elementwise_def has_shape_nrows has_shape_ncols0 bcast_dim_same)
next
  case False
  then have n: "0 < n" by simp
  show ?thesis
    using a b n
    by (simp add: elementwise_def has_shape_nrows has_shape_ncols bcast_dim_same pick_lt)
qed

lemma sum_list_grid:
  "sum_list (map (\<lambda>i. sum_list (map (g i) [0..<c])) [0..<n]) = (\<Sum>i<n. \<Sum>j<c. g i j)"
  by (simp add: interv_sum_list_conv_sum_set_nat atLeast0LessThan)

lemma recon_loss_of_eq:
  assumes r: "has_shape recon n c" and x: "has_shape x n c" and n: "0 < n"
  shows "recon_loss_of recon x = Inr (Some (spec_recon_loss recon x))"
proof -
  have len: "length x = n" using x by (simp add: has_shape_def)
  have rows: "\<And>i. i < n \<Longrightarrow> length (x ! i) = c" using x by (rule has_shape_row)
  have "(\<Sum>i<n. \<Sum>j<length (x ! i). (recon ! i ! j - x ! i ! j)\<^sup>2)
      = (\<Sum>i<n. \<Sum>j<c. (recon ! i ! j - x ! i ! j)\<^sup>2)"
    by (rule sum.cong) (simp_all add: rows)
  then show ?thesis
    using n
    by (simp add: recon_loss_of_def elementwise_same_shape [OF r x] tf_square_def
        tf_reduce_sum_axis1_def tf_reduce_mean_def spec_recon_loss_def len comp_def
        sum_list_grid power2_eq_square)
qed

lemma tf_sigmoid_pos: "0 < tf_sigmoid x"
  by (simp add: tf_sigmoid_def add_pos_pos)

lemma tf_sigmoid_lt_1: "tf_sigmoid x < 1"
proof -
  have "1 < 1 + exp (- x)" by simp
  then show ?thesis unfolding tf_sigmoid_def by (simp add: add_pos_pos)
qed

lemma log_true_arg_pos: "0 < eps \<Longrightarrow> 0 < tf_sigmoid x + eps"
  using tf_sigmoid_pos [of x] by simp

lemma log_fake_arg_pos: "0 < eps \<Longrightarrow> 0 < 1 - tf_sigmoid x + eps"
  using tf_sigmoid_lt_1 [of x] by simp

lemma those_map_Some: "those (map Some xs) = Some xs"
  by (induction xs) simp_all

lemma those_map_Some_comp: "those (map (\<lambda>x. Some (g x)) xs) = Some (map g xs)"
  by (induction xs) simp_all

lemma concat_grid_Some:
  "concat (map (\<lambda>i. map (\<lambda>j. Some (g i j)) [0..<c]) [0..<n])
     = map Some (concat (map (\<lambda>i. map (g i) [0..<c]) [0..<n]))"
  by (simp add: map_concat comp_def)

lemma length_concat_grid:
  "length (concat (map (\<lambda>i. map (g i) [0..<c]) [0..<n])) = n * c"
  by (induction n) simp_all

lemma sum_list_concat_eq: "sum_list (concat xss) = sum_list (map sum_list xss)"
  for xss :: "real list list"
  by (induction xss) simp_all

lemma sum_list_concat_grid:
  "sum_list (concat (map (\<lambda>i. map (g i) [0..<c]) [0..<n])) = (\<Sum>i<n. \<Sum>j<c. g i j)"
  for g :: "nat \<Rightarrow> nat \<Rightarrow> real"
  by (simp add: sum_list_concat_eq comp_def sum_list_grid)

lemma mean_grid:
  assumes "0 < n" "0 < c"
  shows "tf_reduce_mean_f (concat (map (\<lambda>i. map (\<lambda>j. Some (g i j)) [0..<c]) [0..<n]))
           = Some (mean_all n c g)"
proof -
  have "concat (map (\<lambda>i. map (g i) [0..<c]) [0..<n]) \<noteq> []"
    using assms length_concat_grid [of g c n] by (metis length_0_conv mult_is_0 not_less_zero)
  then show ?thesis
    by (simp add: tf_reduce_mean_f_def concat_grid_Some those_map_Some tf_reduce_mean_def
        length_concat_grid sum_list_concat_grid mean_all_def)
qed

lemma map_grid:
  assumes "has_shape t n c"
  shows "map (map h) t = map (\<lambda>i. map (\<lambda>j. h (t ! i ! j)) [0..<c]) [0..<n]"
proof (rule nth_equalityI)
  show "length (map (map h) t) = length (map (\<lambda>i. map (\<lambda>j. h (t ! i ! j)) [0..<c]) [0..<n])"
    using assms by (simp add: has_shape_def)
next
  fix i assume "i < length (map (map h) t)"
  then have i: "i < n" using assms by (simp add: has_shape_def)
  have len: "length (t ! i) = c" using assms i by (rule has_shape_row)
  have "map h (t ! i) = map (\<lambda>j. h (t ! i ! j)) [0..<c]"
    by (rule nth_equalityI) (simp_all add: len)
  then show "map (map h) t ! i = map (\<lambda>i. map (\<lambda>j. h (t ! i ! j)) [0..<c]) [0..<n] ! i"
    using i assms by (simp add: has_shape_def)
qed

lemma has_shape_map: "has_shape t n c \<Longrightarrow> has_shape (map (map h) t) n c"
  by (simp add: has_shape_def list_all_iff)

lemma has_shape_grid: "has_shape (map (\<lambda>i. map (g i) [0..<c]) [0..<n]) n c"
  by (simp add: has_shape_def list_all_iff)

lemma elementwise_grid:
  "elementwise f (map (\<lambda>i. map (g i) [0..<c]) [0..<n]) (map (\<lambda>i. map (h i) [0..<c]) [0..<n])
     = Inr (map (\<lambda>i. map (\<lambda>j. f (g i j) (h i j)) [0..<c]) [0..<n])"
  by (simp add: elementwise_same_shape [OF has_shape_grid has_shape_grid])

lemma L_D_of_eq:
  assumes t: "has_shape true_logits n c" and f: "has_shape fake_logits n c"
    and n: "0 < n" and c: "0 < c" and eps: "0 < eps"
  shows "L_D_of eps true_logits fake_logits = Inr (Some (spec_L_D eps true_logits fake_logits))"
proof -
  have len: "length true_logits = n" using t by (simp add: has_shape_def)
  have nc: "ncols true_logits = c" using t n by (rule has_shape_ncols)
  show ?thesis
    using n c eps
    by (simp add: L_D_of_def map_grid [OF t] map_grid [OF f] elementwise_grid
        tf_log_def log_true_arg_pos log_fake_arg_pos
        fadd_def mean_grid fneg_def spec_L_D_def len nc)
qed

lemma L_G1_of_eq:
  assumes f: "has_shape fake_logits n c" and n: "0 < n" and c: "0 < c" and eps: "0 < eps"
  shows "L_G1_of eps fake_logits = Some (spec_L_G1 eps fake_logits)"
proof -
  have len: "length fake_logits = n" using f by (simp add: has_shape_def)
  have nc: "ncols fake_logits = c" using f n by (rule has_shape_ncols)
  show ?thesis
    using n c eps
    by (simp add: L_G1_of_def map_grid [OF f] tf_log_def log_true_arg_pos one_minus_def
        mean_grid spec_L_G1_def spec_L_G2_def len nc)
qed

lemma L_G2_of_eq:
  assumes f: "has_shape fake_logits n c" and n: "0 < n" and c: "0 < c" and eps: "0 < eps"
  shows "L_G2_of eps fake_logits = Some (spec_L_G2 eps fake_logits)"
proof -
  have len: "length fake_logits = n" using f by (simp add: has_shape_def)
  have nc: "ncols fake_logits = c" using f n by (rule has_shape_ncols)
  show ?thesis
    using n c eps
    by (simp add: L_G2_of_def map_grid [OF f] tf_log_def log_true_arg_pos fneg_def
        mean_grid spec_L_G1_def spec_L_G2_def len nc)
qed

lemmas build_defs = build_def build_VAE_network_def build_GAN_network_def build_train_ops_def
  init_def Let_def

lemma build_recon_loss:
  "recon_loss (snd (build I G (init I i z k b lr)))
     = Some (\<lambda>fd st. bindE (bindE (bindE (read_placeholder (''X_inputs'', i) fd st)
                 (\<lambda>x. call (Encoder I z) st x True)) (\<lambda>q. call (Decoder I z) st q True))
                 (\<lambda>rc. bindE (read_placeholder (''X_inputs'', i) fd st)
                 (\<lambda>x. recon_loss_of rc x)))"
  by (simp add: build_defs)

lemma build_X: "X (snd (build I G (init I i z k b lr))) = (''X_inputs'', i)"
  by (simp add: build_defs)

section \<open>The reconstruction loss\<close>

lemma bindE_Inr: "bindE (Inr v) f = f v"
  by (simp add: bindE_def)

lemma bindE_Inl: "bindE (Inl e) f = Inl e"
  by (simp add: bindE_def)

lemma feeds_ok_has_shape: "has_shape t n c \<Longrightarrow> list_all (\<lambda>r. length r = c) t"
  by (simp add: has_shape_def)

text \<open>
  Claim C1. After \<open>build\<close>, a run of \<open>recon_loss\<close> on a non-empty batch of shape
  \<open>[n, input_dim]\<close> whose reconstruction has the same shape returns the mean over the batch
  of the sum over the features of the squared error between reconstruction and input.
\<close>

theorem recon_loss_is_batch_mean_of_squared_error:
  assumes xs: "has_shape xs n i" and n: "0 < n"
    and enc: "call (Encoder I z) (variables s) xs True = Inr q"
    and dec: "call (Decoder I z) (variables s) q True = Inr recon"
    and rc: "has_shape recon n i"
  shows "\<exists>l. recon_loss (snd (build I G (init I i z k b lr))) = Some l \<and>
             sess_run l [(X (snd (build I G (init I i z k b lr))), xs)] s
               = Inr (Some (spec_recon_loss recon xs))"
  using enc dec
  by (simp add: build_recon_loss build_X sess_run_def feeds_ok_def feeds_ok_has_shape [OF xs]
      read_placeholder_def bindE_Inr recon_loss_of_eq [OF rc xs n])

lemma example_call_defs:
  "call (Encoder example_imports z) st t tr = Inr t"
  "call (Decoder example_imports z) st t tr = Inr (map (map (\<lambda>v. 0)) t)"
  by (simp_all add: example_imports_def example_encoder_def example_decoder_def)

theorem recon_loss_is_batch_mean_of_squared_error_witness:
  "\<exists>l. recon_loss (snd (build example_imports 1 (init example_imports 2 2 3 1 (1 / 100)))) = Some l \<and>
       sess_run l [(X (snd (build example_imports 1 (init example_imports 2 2 3 1 (1 / 100)))), [[1, 2]])]
         example_session = Inr (Some 5)"
proof -
  have xs: "has_shape [[1, 2 :: real]] 1 2" by (simp add: has_shape_def)
  have rc: "has_shape [[0, 0 :: real]] 1 2" by (simp add: has_shape_def)
  have v: "spec_recon_loss [[0, 0]] [[1, 2]] = 5"
    by (simp add: spec_recon_loss_def lessThan_Suc eval_nat_numeral)
  show ?thesis
    using recon_loss_is_batch_mean_of_squared_error
      [of "[[1, 2]]" 1 2 example_imports 2 example_session "[[1, 2]]" "[[0, 0]]" 1 3 1 "1 / 100",
       OF xs _ _ _ rc]
    by (simp add: example_call_defs v)
qed

section \<open>The adversarial losses\<close>

lemma build_placeholders:
  "X (snd (build I G (init I i z k b lr))) = (''X_inputs'', i)"
  "y_labels (snd (build I G (init I i z k b lr))) = (''y_labels'', k + 1)"
  "z_inputs (snd (build I G (init I i z k b lr))) = (''z_inputs'', z)"
  by (simp_all add: build_defs)

text \<open>
  Claim C2. After \<open>build\<close>, a run of \<open>L_D\<close> returns, for logit batches of one
  shape with at least one entry and a positive \<open>TINY\<close>,
  \<open>- mean (log (sigmoid true_logits + TINY) + log (1 - sigmoid fake_logits + TINY))\<close>.
\<close>

theorem L_D_is_negated_mean_of_log_terms:
  assumes xs: "has_shape xs n1 i" and ys: "has_shape ys n2 (k + 1)" and pz: "has_shape pz n3 z"
    and enc: "call (Encoder I z) (variables s) xs True = Inr q"
    and fake: "call2 (Discriminator I z k) (variables s) q ys True = Inr fake_logits"
    and true: "call2 (Discriminator I z k) (variables s) pz ys True = Inr true_logits"
    and t: "has_shape true_logits n c" and f: "has_shape fake_logits n c"
    and n: "0 < n" and c: "0 < c" and eps: "0 < TINY I"
  shows "\<exists>l. L_D (snd (build I G (init I i z k b lr))) = Some l \<and>
             sess_run l [(X (snd (build I G (init I i z k b lr))), xs),
                         (y_labels (snd (build I G (init I i z k b lr))), ys),
                         (z_inputs (snd (build I G (init I i z k b lr))), pz)] s
               = Inr (Some (spec_L_D (TINY I) true_logits fake_logits))"
proof -
  have l: "L_D (snd (build I G (init I i z k b lr)))
     = Some (\<lambda>fd st.
         bindE (bindE (read_placeholder (''z_inputs'', z) fd st) (\<lambda>zz.
                  bindE (read_placeholder (''y_labels'', k + 1) fd st)
                    (\<lambda>y. call2 (Discriminator I z k) st zz y True))) (\<lambda>t.
         bindE (bindE (bindE (read_placeholder (''X_inputs'', i) fd st)
                         (\<lambda>x. call (Encoder I z) st x True)) (\<lambda>zz.
                  bindE (read_placeholder (''y_labels'', k + 1) fd st)
                    (\<lambda>y. call2 (Discriminator I z k) st zz y True)))
           (\<lambda>f. L_D_of (TINY I) t f)))"
    by (simp add: build_defs)
  have ys': "list_all (\<lambda>r. length r = Suc k) ys"
    using ys by (simp add: has_shape_def)
  show ?thesis
    using enc fake true
    by (simp add: l build_placeholders sess_run_def feeds_ok_def feeds_ok_has_shape [OF xs]
        ys' feeds_ok_has_shape [OF pz]
        read_placeholder_def bindE_Inr L_D_of_eq [OF t f n c eps])
qed

lemma example_call2: "call2 (Discriminator example_imports z k) st t y tr = Inr t"
  by (simp add: example_imports_def example_discriminator_def)

lemma example_TINY: "TINY example_imports = 1 / 2"
  by (simp add: example_imports_def)

theorem L_D_is_negated_mean_of_log_terms_witness:
  "\<exists>l. L_D (snd (build example_imports 1 (init example_imports 1 1 1 1 (1 / 100)))) = Some l \<and>
       sess_run l [(X (snd (build example_imports 1 (init example_imports 1 1 1 1 (1 / 100)))), [[0]]),
                   (y_labels (snd (build example_imports 1 (init example_imports 1 1 1 1 (1 / 100)))), [[1, 0]]),
                   (z_inputs (snd (build example_imports 1 (init example_imports 1 1 1 1 (1 / 100)))), [[0]])]
         example_session = Inr (Some 0)"
proof -
  have xs: "has_shape [[0 :: real]] 1 1" by (simp add: has_shape_def)
  have ys: "has_shape [[1, 0 :: real]] 1 (1 + 1)" by (simp add: has_shape_def)
  have v: "spec_L_D (1 / 2) [[0]] [[0]] = 0"
    by (simp add: spec_L_D_def mean_all_def ncols_def tf_sigmoid_def)
  show ?thesis
    using L_D_is_negated_mean_of_log_terms
      [where xs = "[[0]]" and ys = "[[1, 0]]" and pz = "[[0]]" and I = example_imports
         and s = example_session and q = "[[0]]" and fake_logits = "[[0]]"
         and true_logits = "[[0]]" and G = 1 and b = 1 and lr = "1 / 100",
       OF xs ys xs _ _ _ xs xs]
    by (simp add: example_call_defs example_call2 example_TINY v)
qed

text \<open>
  Claim C3. The generator loss that \<open>build\<close> assigns is chosen by \<open>G_type\<close>:
  with \<open>G_type = 1\<close> a run of \<open>L_G\<close> returns
  \<open>mean (1 - log (sigmoid fake_logits + TINY))\<close>, with \<open>G_type = 2\<close> it returns
  \<open>- mean (log (sigmoid fake_logits + TINY))\<close>.
\<close>

theorem L_G_is_selected_by_G_type:
  assumes xs: "has_shape xs n1 i" and ys: "has_shape ys n2 (k + 1)"
    and enc: "call (Encoder I z) (variables s) xs True = Inr q"
    and fake: "call2 (Discriminator I z k) (variables s) q ys True = Inr fake_logits"
    and f: "has_shape fake_logits n c"
    and n: "0 < n" and c: "0 < c" and eps: "0 < TINY I"
  shows "(\<exists>l. L_G (snd (build I 1 (init I i z k b lr))) = Some l \<and>
             sess_run l [(X (snd (build I 1 (init I i z k b lr))), xs),
                         (y_labels (snd (build I 1 (init I i z k b lr))), ys)] s
               = Inr (Some (spec_L_G1 (TINY I) fake_logits))) \<and>
         (\<exists>l. L_G (snd (build I 2 (init I i z k b lr))) = Some l \<and>
             sess_run l [(X (snd (build I 2 (init I i z k b lr))), xs),
                         (y_labels (snd (build I 2 (init I i z k b lr))), ys)] s
               = Inr (Some (spec_L_G2 (TINY I) fake_logits)))"
proof -
  let ?fake = "\<lambda>fd st. bindE (bindE (read_placeholder (''X_inputs'', i) fd st)
                         (\<lambda>x. call (Encoder I z) st x True)) (\<lambda>zz.
                  bindE (read_placeholder (''y_labels'', k + 1) fd st)
                    (\<lambda>y. call2 (Discriminator I z k) st zz y True))"
  have l1: "L_G (snd (build I 1 (init I i z k b lr)))
     = Some (\<lambda>fd st. bindE (?fake fd st) (\<lambda>f. Inr (L_G1_of (TINY I) f)))"
    by (simp add: build_defs)
  have l2: "L_G (snd (build I 2 (init I i z k b lr)))
     = Some (\<lambda>fd st. bindE (?fake fd st) (\<lambda>f. Inr (L_G2_of (TINY I) f)))"
    by (simp add: build_defs)
  have ys': "list_all (\<lambda>r. length r = Suc k) ys"
    using ys by (simp add: has_shape_def)
  show ?thesis
    using enc fake
    by (simp add: l1 l2 build_placeholders sess_run_def feeds_ok_def feeds_ok_has_shape [OF xs]
        ys'
        read_placeholder_def bindE_Inr L_G1_of_eq [OF f n c eps] L_G2_of_eq [OF f n c eps])
qed

theorem L_G_is_selected_by_G_type_witness:
  "(\<exists>l. L_G (snd (build example_imports 1 (init example_imports 1 1 1 1 (1 / 100)))) = Some l \<and>
       sess_run l [(X (snd (build example_imports 1 (init example_imports 1 1 1 1 (1 / 100)))), [[0]]),
                   (y_labels (snd (build example_imports 1 (init example_imports 1 1 1 1 (1 / 100)))), [[1, 0]])]
         example_session = Inr (Some 1)) \<and>
   (\<exists>l. L_G (snd (build example_imports 2 (init example_imports 1 1 1 1 (1 / 100)))) = Some l \<and>
       sess_run l [(X (snd (build example_imports 2 (init example_imports 1 1 1 1 (1 / 100)))), [[0]]),
                   (y_labels (snd (build example_imports 2 (init example_imports 1 1 1 1 (1 / 100)))), [[1, 0]])]
         example_session = Inr (Some 0))"
proof -
  have xs: "has_shape [[0 :: real]] 1 1" by (simp add: has_shape_def)
  have ys: "has_shape [[1, 0 :: real]] 1 (1 + 1)" by (simp add: has_shape_def)
  have v: "spec_L_G1 (1 / 2) [[0]] = 1" "spec_L_G2 (1 / 2) [[0]] = 0"
    by (simp_all add: spec_L_G1_def spec_L_G2_def mean_all_def ncols_def tf_sigmoid_def)
  show ?thesis
    using L_G_is_selected_by_G_type
      [where xs = "[[0]]" and ys = "[[1, 0]]" and I = example_imports
         and s = example_session and q = "[[0]]" and fake_logits = "[[0]]"
         and b = 1 and lr = "1 / 100",
       OF xs ys _ _ xs]
    by (simp add: example_call_defs example_call2 example_TINY v)
qed

section \<open>What build assigns and what the entry points run\<close>

lemma build_succeeds: "G = 1 \<or> G = 2 \<Longrightarrow> fst (build I G (init I i z k b lr)) = None"
  by (auto simp: build_defs)

lemma build_networks:
  "encoder (snd (build I G (init I i z k b lr))) = Encoder I z"
  "decoder (snd (build I G (init I i z k b lr))) = Decoder I z"
  "discriminator (snd (build I G (init I i z k b lr))) = Discriminator I z k"
  "batch_size (snd (build I G (init I i z k b lr))) = b"
  "z_dim (snd (build I G (init I i z k b lr))) = z"
  "learning_rate (snd (build I G (init I i z k b lr))) = lr"
  "step (snd (build I G (init I i z k b lr))) = 0"
  by (simp_all add: build_defs)

lemma build_None_G: "fst (build I G (init I i z k b lr)) = None \<Longrightarrow> G = 1 \<or> G = 2"
  by (auto simp: build_defs split: if_splits)

lemma build_train_ops_attrs:
  assumes "fst (build I G (init I i z k b lr)) = None"
  shows "\<exists>rl ld lg.
     recon_loss (snd (build I G (init I i z k b lr))) = Some rl \<and>
     L_D (snd (build I G (init I i z k b lr))) = Some ld \<and>
     L_G (snd (build I G (init I i z k b lr))) = Some lg \<and>
     vae_train_op (snd (build I G (init I i z k b lr)))
       = Some (minimize (AdamOptimizer I lr) 0 rl (get_variables (Encoder I z) @ get_variables (Decoder I z))) \<and>
     disc_train_op (snd (build I G (init I i z k b lr)))
       = Some (minimize (AdamOptimizer I lr) 1 ld (get_variables2 (Discriminator I z k))) \<and>
     gen_train_op (snd (build I G (init I i z k b lr)))
       = Some (minimize (GradientDescentOptimizer I lr) 2 lg (get_variables (Encoder I z)))"
  using build_None_G [OF assms] by (auto simp: build_defs)

lemma minimize_frame:
  assumes "minimize opt k loss var_list fd s = Inr s'" and "v \<notin> set var_list"
  shows "variables s' v = variables s v"
  using assms
  by (auto simp: minimize_def bindE_def split: sum.splits prod.splits)

lemma sess_run_train_Inr:
  assumes "sess_run_train op loss summ fd s = Inr (l, sm, s')"
  shows "feeds_ok fd \<and> loss fd (variables s) = Inr l \<and> summ fd (variables s) = Inr sm \<and> op fd s = Inr s'"
  using assms
  by (auto simp: sess_run_train_def bindE_def split: sum.splits if_splits)

lemma getattr_Inr: "getattr name a = Inr v \<longleftrightarrow> a = Some v"
  by (cases a) (simp_all add: getattr_def)

lemma bindE_eq_Inr: "bindE m f = Inr r \<longleftrightarrow> (\<exists>v. m = Inr v \<and> f v = Inr r)"
  by (cases m) (simp_all add: bindE_def)

lemma train_VAE_Inr:
  assumes "train_VAE A xs s w = Inr (l, A', s', w')"
  shows "\<exists>op loss summ sm. vae_train_op A = Some op \<and> recon_loss A = Some loss \<and>
           recon_loss_summary A = Some summ \<and>
           sess_run_train op loss summ [(X A, xs)] s = Inr (l, sm, s') \<and>
           A' = A \<and> w' = log_summary w sm (step A)"
  using assms
  by (auto simp: train_VAE_def bindE_eq_Inr getattr_Inr)

lemma train_GENERATOR_Inr:
  assumes "train_GENERATOR A xs ys s w = Inr (l, A', s', w')"
  shows "\<exists>op loss summ sm. gen_train_op A = Some op \<and> L_G A = Some loss \<and>
           L_G_summary A = Some summ \<and>
           sess_run_train op loss summ [(X A, xs), (y_labels A, ys)] s = Inr (l, sm, s') \<and>
           A' = A \<and> w' = log_summary w sm (step A)"
  using assms
  by (auto simp: train_GENERATOR_def bindE_eq_Inr getattr_Inr)

lemma train_DISCRIMINATOR_Inr:
  assumes "fst (train_DISCRIMINATOR I A xs ys s w g) = Inr (l, A', s', w')"
  shows "\<exists>op loss summ sm. disc_train_op A = Some op \<and> L_D A = Some loss \<and>
           L_D_summary A = Some summ \<and>
           sess_run_train op loss summ
             [(X A, xs), (y_labels A, ys),
              (z_inputs A, fst (standard_normal I g (batch_size A, z_dim A)))] s = Inr (l, sm, s') \<and>
           A' = A \<and> w' = log_summary w sm (step A)"
  using assms
  by (auto simp: train_DISCRIMINATOR_def sample_StandarddNormal_def bindE_eq_Inr getattr_Inr
      split: prod.splits)

section \<open>The three optimization steps\<close>

text \<open>
  Claim C4. On a built object, a generator step leaves every variable outside the
  encoder's unchanged, a discriminator step every variable outside the discriminator's,
  and a reconstruction step every variable outside the encoder's and the decoder's. When
  the three networks own disjoint variables, the generator step leaves the decoder's and
  the discriminator's variables unchanged, the discriminator step the encoder's and the
  decoder's, and the reconstruction step the discriminator's.
\<close>

theorem each_step_updates_only_its_own_variables:
  assumes built: "build I G (init I i z k b lr) = (None, A)"
    and ed: "set (get_variables (Encoder I z)) \<inter> set (get_variables (Decoder I z)) = {}"
    and eD: "set (get_variables (Encoder I z)) \<inter> set (get_variables2 (Discriminator I z k)) = {}"
    and dD: "set (get_variables (Decoder I z)) \<inter> set (get_variables2 (Discriminator I z k)) = {}"
  shows "(train_GENERATOR A xs ys s w = Inr (l, A', s', w') \<longrightarrow>
            (\<forall>v. v \<notin> set (get_variables (Encoder I z)) \<longrightarrow> variables s' v = variables s v) \<and>
            (\<forall>v \<in> set (get_variables (Decoder I z)) \<union> set (get_variables2 (Discriminator I z k)).
                variables s' v = variables s v)) \<and>
         (fst (train_DISCRIMINATOR I A xs ys s w g) = Inr (l, A', s', w') \<longrightarrow>
            (\<forall>v. v \<notin> set (get_variables2 (Discriminator I z k)) \<longrightarrow> variables s' v = variables s v) \<and>
            (\<forall>v \<in> set (get_variables (Encoder I z)) \<union> set (get_variables (Decoder I z)).
                variables s' v = variables s v)) \<and>
         (train_VAE A xs s w = Inr (l, A', s', w') \<longrightarrow>
            (\<forall>v. v \<notin> set (get_variables (Encoder I z)) \<union> set (get_variables (Decoder I z))
                \<longrightarrow> variables s' v = variables s v) \<and>
            (\<forall>v \<in> set (get_variables2 (Discriminator I z k)). variables s' v = variables s v))"
proof -
  have A: "A = snd (build I G (init I i z k b lr))" and ok: "fst (build I G (init I i z k b lr)) = None"
    using built by simp_all
  obtain rl ld lg where
    vae: "vae_train_op A = Some (minimize (AdamOptimizer I lr) 0 rl
            (get_variables (Encoder I z) @ get_variables (Decoder I z)))" and
    disc: "disc_train_op A = Some (minimize (AdamOptimizer I lr) 1 ld
            (get_variables2 (Discriminator I z k)))" and
    gen: "gen_train_op A = Some (minimize (GradientDescentOptimizer I lr) 2 lg
            (get_variables (Encoder I z)))"
    using build_train_ops_attrs [OF ok] unfolding A by blast
  have g: "\<forall>v. v \<notin> set (get_variables (Encoder I z)) \<longrightarrow> variables s' v = variables s v"
    if "train_GENERATOR A xs ys s w = Inr (l, A', s', w')"
    using train_GENERATOR_Inr [OF that] gen
    by (auto dest!: sess_run_train_Inr dest: minimize_frame)
  have d: "\<forall>v. v \<notin> set (get_variables2 (Discriminator I z k)) \<longrightarrow> variables s' v = variables s v"
    if "fst (train_DISCRIMINATOR I A xs ys s w g) = Inr (l, A', s', w')"
    using train_DISCRIMINATOR_Inr [OF that] disc
    by (auto dest!: sess_run_train_Inr dest: minimize_frame)
  have v: "\<forall>v. v \<notin> set (get_variables (Encoder I z)) \<union> set (get_variables (Decoder I z))
                \<longrightarrow> variables s' v = variables s v"
    if "train_VAE A xs s w = Inr (l, A', s', w')"
    using train_VAE_Inr [OF that] vae
    by (auto dest!: sess_run_train_Inr dest: minimize_frame)
  show ?thesis
    using g d v ed eD dD by blast
qed

lemma example_built: "build example_imports 1 (init example_imports 1 1 1 1 (1 / 100)) = (None, example_aae)"
  using build_succeeds [of 1 example_imports 1 1 1 1 "1 / 100"]
  by (simp add: example_aae_def prod_eq_iff)

lemma example_variables:
  "get_variables (Encoder example_imports z) = [''enc/w'']"
  "get_variables (Decoder example_imports z) = [''dec/w'']"
  "get_variables2 (Discriminator example_imports z k) = [''disc/w'']"
  by (simp_all add: example_imports_def example_encoder_def example_decoder_def
      example_discriminator_def)

lemmas example_defs = example_aae_def example_imports_def example_encoder_def example_decoder_def
  example_discriminator_def example_optimizer_def example_session_def

lemmas run_defs = getattr_def bindE_def sess_run_def sess_run_train_def feeds_ok_def minimize_def
  read_placeholder_def tf_summary_scalar_def log_summary_def add_summary_def

lemma example_train_GENERATOR:
  "\<exists>l s'. train_GENERATOR example_aae [[0]] [[1, 0]] example_session None = Inr (l, example_aae, s', None)
      \<and> variables s' ''enc/w'' = [[1]]"
  by (simp add: train_GENERATOR_def example_defs build_defs run_defs)

lemma example_train_DISCRIMINATOR:
  "\<exists>l s'. fst (train_DISCRIMINATOR example_imports example_aae [[0]] [[1, 0]] example_session None 0)
        = Inr (l, example_aae, s', None)
      \<and> variables s' ''disc/w'' = [[1]]"
  by (simp add: train_DISCRIMINATOR_def sample_StandarddNormal_def example_defs build_defs run_defs
      L_D_of_def elementwise_def nrows_def ncols_def bcast_dim_def)

lemma example_train_VAE:
  "\<exists>l s'. train_VAE example_aae [[0]] example_session None = Inr (l, example_aae, s', None)
      \<and> variables s' ''enc/w'' = [[1]] \<and> variables s' ''dec/w'' = [[1]]"
  by (simp add: train_VAE_def example_defs build_defs run_defs
      recon_loss_of_def elementwise_def nrows_def ncols_def bcast_dim_def)

theorem each_step_updates_only_its_own_variables_witness:
  "(\<exists>l s'. train_GENERATOR example_aae [[0]] [[1, 0]] example_session None
              = Inr (l, example_aae, s', None) \<and>
           variables s' ''enc/w'' = [[1]] \<and>
           variables s' ''dec/w'' = variables example_session ''dec/w'' \<and>
           variables s' ''disc/w'' = variables example_session ''disc/w'') \<and>
   (\<exists>l s'. fst (train_DISCRIMINATOR example_imports example_aae [[0]] [[1, 0]] example_session None 0)
              = Inr (l, example_aae, s', None) \<and>
           variables s' ''disc/w'' = [[1]] \<and>
           variables s' ''enc/w'' = variables example_session ''enc/w'' \<and>
           variables s' ''dec/w'' = variables example_session ''dec/w'') \<and>
   (\<exists>l s'. train_VAE example_aae [[0]] example_session None = Inr (l, example_aae, s', None) \<and>
           variables s' ''enc/w'' = [[1]] \<and> variables s' ''dec/w'' = [[1]] \<and>
           variables s' ''disc/w'' = variables example_session ''disc/w'')"
proof -
  note frame = each_step_updates_only_its_own_variables
    [where I = example_imports and G = 1 and i = 1 and z = 1 and k = 1 and b = 1
       and lr = "1 / 100" and A = example_aae and xs = "[[0]]" and ys = "[[1, 0]]"
       and s = example_session and w = None and g = 0 and A' = example_aae and w' = None,
     OF example_built, unfolded example_variables, simplified]
  obtain lg sg where
    g: "train_GENERATOR example_aae [[0]] [[1, 0]] example_session None
          = Inr (lg, example_aae, sg, None)" "variables sg ''enc/w'' = [[1]]"
    using example_train_GENERATOR by blast
  obtain ld sd where
    d: "fst (train_DISCRIMINATOR example_imports example_aae [[0]] [[1, 0]] example_session None 0)
          = Inr (ld, example_aae, sd, None)" "variables sd ''disc/w'' = [[1]]"
    using example_train_DISCRIMINATOR by blast
  obtain lv sv where
    v: "train_VAE example_aae [[0]] example_session None = Inr (lv, example_aae, sv, None)"
       "variables sv ''enc/w'' = [[1]]" "variables sv ''dec/w'' = [[1]]"
    using example_train_VAE by blast
  have "variables sg ''dec/w'' = variables example_session ''dec/w''"
       "variables sg ''disc/w'' = variables example_session ''disc/w''"
    using frame [of lg sg] g(1) by simp_all
  moreover have "variables sd ''enc/w'' = variables example_session ''enc/w''"
       "variables sd ''dec/w'' = variables example_session ''dec/w''"
    using frame [of ld sd] d(1) by simp_all
  moreover have "variables sv ''disc/w'' = variables example_session ''disc/w''"
    using frame [of lv sv] v(1) by simp_all
  ultimately show ?thesis
    using g d v by blast
qed

section \<open>The entry points\<close>

text \<open>
  Claim C7. On a built object, a call of \<open>train_DISCRIMINATOR\<close> draws once from
  \<open>standard_normal\<close> with the shape \<open>(batch_size, z_dim)\<close> and leaves the generator in
  the state after that draw; when the call returns, the value returned is \<open>L_D\<close> run
  with the drawn batch fed for \<open>z_inputs\<close>, the session is the one after one run of
  the discriminator step on the same feeds, and the drawn batch has \<open>z_dim\<close> columns.
\<close>

theorem train_DISCRIMINATOR_draws_prior_and_steps_once:
  assumes built: "build I G (init I i z k b lr) = (None, A)"
    and draw: "standard_normal I g (b, z) = (pz, g')"
  shows "snd (train_DISCRIMINATOR I A xs ys s w g) = g' \<and>
         (fst (train_DISCRIMINATOR I A xs ys s w g) = Inr (l, A', s', w') \<longrightarrow>
            (\<exists>ld. L_D A = Some ld \<and>
               sess_run ld [(X A, xs), (y_labels A, ys), (z_inputs A, pz)] s = Inr l \<and>
               minimize (AdamOptimizer I lr) 1 ld (get_variables2 (Discriminator I z k))
                 [(X A, xs), (y_labels A, ys), (z_inputs A, pz)] s = Inr s' \<and>
               has_shape pz (length pz) z))"
proof -
  have A: "A = snd (build I G (init I i z k b lr))" and ok: "fst (build I G (init I i z k b lr)) = None"
    using built by simp_all
  have bz: "batch_size A = b" "z_dim A = z" "z_inputs A = (''z_inputs'', z)"
    unfolding A by (simp_all add: build_networks build_placeholders)
  obtain ld where
    ld: "L_D A = Some ld" and
    disc: "disc_train_op A = Some (minimize (AdamOptimizer I lr) 1 ld
            (get_variables2 (Discriminator I z k)))"
    using build_train_ops_attrs [OF ok] unfolding A by blast
  have rng: "snd (train_DISCRIMINATOR I A xs ys s w g) = g'"
    using draw by (simp add: train_DISCRIMINATOR_def sample_StandarddNormal_def bz)
  have run: "\<exists>ld. L_D A = Some ld \<and>
               sess_run ld [(X A, xs), (y_labels A, ys), (z_inputs A, pz)] s = Inr l \<and>
               minimize (AdamOptimizer I lr) 1 ld (get_variables2 (Discriminator I z k))
                 [(X A, xs), (y_labels A, ys), (z_inputs A, pz)] s = Inr s' \<and>
               has_shape pz (length pz) z"
    if "fst (train_DISCRIMINATOR I A xs ys s w g) = Inr (l, A', s', w')"
  proof -
    from train_DISCRIMINATOR_Inr [OF that] obtain op loss summ sm where
      o: "disc_train_op A = Some op" "L_D A = Some loss" and
      r: "sess_run_train op loss summ
            [(X A, xs), (y_labels A, ys), (z_inputs A, pz)] s = Inr (l, sm, s')"
      using draw by (auto simp: bz)
    from sess_run_train_Inr [OF r] have
      f: "feeds_ok [(X A, xs), (y_labels A, ys), (z_inputs A, pz)]" and
      l: "loss [(X A, xs), (y_labels A, ys), (z_inputs A, pz)] (variables s) = Inr l" and
      s: "op [(X A, xs), (y_labels A, ys), (z_inputs A, pz)] s = Inr s'"
      by simp_all
    have "has_shape pz (length pz) z"
      using f by (simp add: feeds_ok_def bz has_shape_def)
    with o ld disc f l s show ?thesis
      by (simp add: sess_run_def)
  qed
  show ?thesis using rng run by blast
qed

lemma example_standard_normal: "standard_normal example_imports g (r, c) = (replicate r (replicate c 0), Suc g)"
  by (simp add: example_imports_def)

theorem train_DISCRIMINATOR_draws_prior_and_steps_once_witness:
  "snd (train_DISCRIMINATOR example_imports example_aae [[0]] [[1, 0]] example_session None 0) = 1 \<and>
   (\<exists>l s' ld. fst (train_DISCRIMINATOR example_imports example_aae [[0]] [[1, 0]] example_session None 0)
                = Inr (l, example_aae, s', None) \<and>
      L_D example_aae = Some ld \<and>
      sess_run ld [(X example_aae, [[0]]), (y_labels example_aae, [[1, 0]]),
                   (z_inputs example_aae, [[0]])] example_session = Inr l \<and>
      has_shape [[0 :: real]] 1 1)"
proof -
  have draw: "standard_normal example_imports 0 (1, 1) = ([[0]], 1)"
    by (simp add: example_standard_normal)
  note inst = train_DISCRIMINATOR_draws_prior_and_steps_once [OF example_built draw,
      where xs = "[[0]]" and ys = "[[1, 0]]" and s = example_session and w = None]
  obtain ld sd where
    d: "fst (train_DISCRIMINATOR example_imports example_aae [[0]] [[1, 0]] example_session None 0)
          = Inr (ld, example_aae, sd, None)"
    using example_train_DISCRIMINATOR by blast
  show ?thesis
    using inst [of ld example_aae sd None] d by auto
qed

section \<open>The step counter\<close>

lemma build_keeps_step: "step (snd (build I G A)) = step A"
  by (auto simp: build_defs split: option.splits)

text \<open>
  Claim C9. The step counter is 0 after \<open>__init__\<close>; \<open>build\<close> and the three training
  entry points leave it as it is, so it only changes when the caller assigns it. An entry
  point that returns has appended to the writer, if there is one, the summary stamped with
  the current step; with any other value of the counter the same call returns the same
  loss and the same session, and only the stamp differs.
\<close>

theorem step_only_stamps_the_summaries:
  "step (init I i z k b lr) = 0 \<and>
   step (snd (build I G A)) = step A \<and>
   (train_VAE A xs s w = Inr (l, A', s', w') \<longrightarrow>
      step A' = step A \<and>
      (\<exists>sm. w' = log_summary w sm (step A) \<and>
         (\<forall>n. train_VAE (A\<lparr>step := n\<rparr>) xs s w
                = Inr (l, A\<lparr>step := n\<rparr>, s', log_summary w sm n)))) \<and>
   (train_GENERATOR A xs ys s w = Inr (l, A', s', w') \<longrightarrow>
      step A' = step A \<and>
      (\<exists>sm. w' = log_summary w sm (step A) \<and>
         (\<forall>n. train_GENERATOR (A\<lparr>step := n\<rparr>) xs ys s w
                = Inr (l, A\<lparr>step := n\<rparr>, s', log_summary w sm n)))) \<and>
   (fst (train_DISCRIMINATOR I A xs ys s w g) = Inr (l, A', s', w') \<longrightarrow>
      step A' = step A \<and>
      (\<exists>sm. w' = log_summary w sm (step A) \<and>
         (\<forall>n. train_DISCRIMINATOR I (A\<lparr>step := n\<rparr>) xs ys s w g
                = (Inr (l, A\<lparr>step := n\<rparr>, s', log_summary w sm n),
                   snd (train_DISCRIMINATOR I A xs ys s w g)))))"
proof -
  have v: "step A' = step A \<and>
      (\<exists>sm. w' = log_summary w sm (step A) \<and>
         (\<forall>n. train_VAE (A\<lparr>step := n\<rparr>) xs s w
                = Inr (l, A\<lparr>step := n\<rparr>, s', log_summary w sm n)))"
    if "train_VAE A xs s w = Inr (l, A', s', w')"
  proof -
    from train_VAE_Inr [OF that] obtain op loss summ sm where
      a: "vae_train_op A = Some op" "recon_loss A = Some loss" "recon_loss_summary A = Some summ"
      and r: "sess_run_train op loss summ [(X A, xs)] s = Inr (l, sm, s')"
      and e: "A' = A" "w' = log_summary w sm (step A)"
      by blast
    have "\<forall>n. train_VAE (A\<lparr>step := n\<rparr>) xs s w
                = Inr (l, A\<lparr>step := n\<rparr>, s', log_summary w sm n)"
      using a r by (simp add: train_VAE_def getattr_def bindE_Inr)
    with e show ?thesis by blast
  qed
  have g: "step A' = step A \<and>
      (\<exists>sm. w' = log_summary w sm (step A) \<and>
         (\<forall>n. train_GENERATOR (A\<lparr>step := n\<rparr>) xs ys s w
                = Inr (l, A\<lparr>step := n\<rparr>, s', log_summary w sm n)))"
    if "train_GENERATOR A xs ys s w = Inr (l, A', s', w')"
  proof -
    from train_GENERATOR_Inr [OF that] obtain op loss summ sm where
      a: "gen_train_op A = Some op" "L_G A = Some loss" "L_G_summary A = Some summ"
      and r: "sess_run_train op loss summ [(X A, xs), (y_labels A, ys)] s = Inr (l, sm, s')"
      and e: "A' = A" "w' = log_summary w sm (step A)"
      by blast
    have "\<forall>n. train_GENERATOR (A\<lparr>step := n\<rparr>) xs ys s w
                = Inr (l, A\<lparr>step := n\<rparr>, s', log_summary w sm n)"
      using a r by (simp add: train_GENERATOR_def getattr_def bindE_Inr)
    with e show ?thesis by blast
  qed
  have d: "step A' = step A \<and>
      (\<exists>sm. w' = log_summary w sm (step A) \<and>
         (\<forall>n. train_DISCRIMINATOR I (A\<lparr>step := n\<rparr>) xs ys s w g
                = (Inr (l, A\<lparr>step := n\<rparr>, s', log_summary w sm n),
                   snd (train_DISCRIMINATOR I A xs ys s w g))))"
    if "fst (train_DISCRIMINATOR I A xs ys s w g) = Inr (l, A', s', w')"
  proof -
    from train_DISCRIMINATOR_Inr [OF that] obtain op loss summ sm where
      a: "disc_train_op A = Some op" "L_D A = Some loss" "L_D_summary A = Some summ"
      and r: "sess_run_train op loss summ
             [(X A, xs), (y_labels A, ys),
              (z_inputs A, fst (standard_normal I g (batch_size A, z_dim A)))] s = Inr (l, sm, s')"
      and e: "A' = A" "w' = log_summary w sm (step A)"
      by blast
    have "\<forall>n. train_DISCRIMINATOR I (A\<lparr>step := n\<rparr>) xs ys s w g
                = (Inr (l, A\<lparr>step := n\<rparr>, s', log_summary w sm n),
                   snd (train_DISCRIMINATOR I A xs ys s w g))"
      using a r
      by (simp add: train_DISCRIMINATOR_def sample_StandarddNormal_def getattr_def bindE_Inr
          case_prod_beta)
    with e show ?thesis by blast
  qed
  show ?thesis
    using v g d by (simp add: build_keeps_step) (simp add: init_def)
qed

lemma example_train_VAE_logged:
  "\<exists>l s'. train_VAE example_aae [[0]] example_session (Some [])
            = Inr (l, example_aae, s', Some [((''Reconstruct_Loss'', l), 0)])"
  by (simp add: train_VAE_def example_defs build_defs run_defs
      recon_loss_of_def elementwise_def nrows_def ncols_def bcast_dim_def)

lemma example_train_GENERATOR_logged:
  "\<exists>l s'. train_GENERATOR example_aae [[0]] [[1, 0]] example_session (Some [])
            = Inr (l, example_aae, s', Some [((''Generator_Loss'', l), 0)])"
  by (simp add: train_GENERATOR_def example_defs build_defs run_defs)

lemma example_train_DISCRIMINATOR_logged:
  "\<exists>l s'. fst (train_DISCRIMINATOR example_imports example_aae [[0]] [[1, 0]] example_session (Some []) 0)
            = Inr (l, example_aae, s', Some [((''Discriminator_Loss'', l), 0)])"
  by (simp add: train_DISCRIMINATOR_def sample_StandarddNormal_def example_defs build_defs run_defs
      L_D_of_def elementwise_def nrows_def ncols_def bcast_dim_def)

theorem step_only_stamps_the_summaries_witness:
  "step (init example_imports 1 1 1 1 (1 / 100)) = 0 \<and>
   (\<exists>l s'. train_VAE example_aae [[0]] example_session (Some [])
              = Inr (l, example_aae, s', Some [((''Reconstruct_Loss'', l), 0)]) \<and>
           train_VAE (example_aae\<lparr>step := 7\<rparr>) [[0]] example_session (Some [])
              = Inr (l, example_aae\<lparr>step := 7\<rparr>, s', Some [((''Reconstruct_Loss'', l), 7)])) \<and>
   (\<exists>l s'. train_GENERATOR example_aae [[0]] [[1, 0]] example_session (Some [])
              = Inr (l, example_aae, s', Some [((''Generator_Loss'', l), 0)]) \<and>
           train_GENERATOR (example_aae\<lparr>step := 7\<rparr>) [[0]] [[1, 0]] example_session (Some [])
              = Inr (l, example_aae\<lparr>step := 7\<rparr>, s', Some [((''Generator_Loss'', l), 7)])) \<and>
   (\<exists>l s'. fst (train_DISCRIMINATOR example_imports example_aae [[0]] [[1, 0]] example_session (Some []) 0)
              = Inr (l, example_aae, s', Some [((''Discriminator_Loss'', l), 0)]) \<and>
           fst (train_DISCRIMINATOR example_imports (example_aae\<lparr>step := 7\<rparr>) [[0]] [[1, 0]]
                  example_session (Some []) 0)
              = Inr (l, example_aae\<lparr>step := 7\<rparr>, s', Some [((''Discriminator_Loss'', l), 7)]))"
proof -
  note inst = step_only_stamps_the_summaries
    [where I = example_imports and i = 1 and z = 1 and k = 1 and b = 1 and lr = "1 / 100"
       and G = 1 and A = example_aae and xs = "[[0]]" and ys = "[[1, 0]]"
       and s = example_session and w = "Some []" and g = 0 and A' = example_aae]
  obtain lv sv where
    v: "train_VAE example_aae [[0]] example_session (Some [])
          = Inr (lv, example_aae, sv, Some [((''Reconstruct_Loss'', lv), 0)])"
    using example_train_VAE_logged by blast
  obtain lg sg where
    g: "train_GENERATOR example_aae [[0]] [[1, 0]] example_session (Some [])
          = Inr (lg, example_aae, sg, Some [((''Generator_Loss'', lg), 0)])"
    using example_train_GENERATOR_logged by blast
  obtain ld sd where
    d: "fst (train_DISCRIMINATOR example_imports example_aae [[0]] [[1, 0]] example_session (Some []) 0)
          = Inr (ld, example_aae, sd, Some [((''Discriminator_Loss'', ld), 0)])"
    using example_train_DISCRIMINATOR_logged by blast
  have st: "step example_aae = 0"
    by (simp add: example_aae_def build_networks)
  have v7: "train_VAE (example_aae\<lparr>step := 7\<rparr>) [[0]] example_session (Some [])
              = Inr (lv, example_aae\<lparr>step := 7\<rparr>, sv, Some [((''Reconstruct_Loss'', lv), 7)])"
  proof -
    from inst [of lv sv "Some [((''Reconstruct_Loss'', lv), 0)]"] v
    obtain sm where
      w: "Some [((''Reconstruct_Loss'', lv), 0)] = log_summary (Some []) sm (step example_aae)" and
      n: "\<forall>n. train_VAE (example_aae\<lparr>step := n\<rparr>) [[0]] example_session (Some [])
             = Inr (lv, example_aae\<lparr>step := n\<rparr>, sv, log_summary (Some []) sm n)"
      by blast
    from w have "sm = (''Reconstruct_Loss'', lv)"
      by (simp add: st log_summary_def add_summary_def)
    with n [rule_format, of 7] show ?thesis
      by (simp add: log_summary_def add_summary_def)
  qed
  have g7: "train_GENERATOR (example_aae\<lparr>step := 7\<rparr>) [[0]] [[1, 0]] example_session (Some [])
              = Inr (lg, example_aae\<lparr>step := 7\<rparr>, sg, Some [((''Generator_Loss'', lg), 7)])"
  proof -
    from inst [of lg sg "Some [((''Generator_Loss'', lg), 0)]"] g
    obtain sm where
      w: "Some [((''Generator_Loss'', lg), 0)] = log_summary (Some []) sm (step example_aae)" and
      n: "\<forall>n. train_GENERATOR (example_aae\<lparr>step := n\<rparr>) [[0]] [[1, 0]] example_session (Some [])
             = Inr (lg, example_aae\<lparr>step := n\<rparr>, sg, log_summary (Some []) sm n)"
      by blast
    from w have "sm = (''Generator_Loss'', lg)"
      by (simp add: st log_summary_def add_summary_def)
    with n [rule_format, of 7] show ?thesis
      by (simp add: log_summary_def add_summary_def)
  qed
  have d7: "fst (train_DISCRIMINATOR example_imports (example_aae\<lparr>step := 7\<rparr>) [[0]] [[1, 0]]
                  example_session (Some []) 0)
              = Inr (ld, example_aae\<lparr>step := 7\<rparr>, sd, Some [((''Discriminator_Loss'', ld), 7)])"
  proof -
    from inst [of ld sd "Some [((''Discriminator_Loss'', ld), 0)]"] d
    obtain sm where
      w: "Some [((''Discriminator_Loss'', ld), 0)] = log_summary (Some []) sm (step example_aae)" and
      n: "\<forall>n. train_DISCRIMINATOR example_imports (example_aae\<lparr>step := n\<rparr>) [[0]] [[1, 0]]
               example_session (Some []) 0
             = (Inr (ld, example_aae\<lparr>step := n\<rparr>, sd, log_summary (Some []) sm n),
                snd (train_DISCRIMINATOR example_imports example_aae [[0]] [[1, 0]]
                       example_session (Some []) 0))"
      by blast
    from w have "sm = (''Discriminator_Loss'', ld)"
      by (simp add: st log_summary_def add_summary_def)
    with n [rule_format, of 7] show ?thesis
      by (simp add: log_summary_def add_summary_def)
  qed
  show ?thesis
    using v g d v7 g7 d7 by (simp add: init_def)
qed

section \<open>A generator variant other than 1 and 2\<close>

text \<open>
  Claim C10, as amended. With a \<open>G_type\<close> other than 1 and 2 no generator loss is
  assigned, and \<open>build\<close> raises AttributeError for \<open>L_G\<close> inside
  \<open>_build_GAN_network\<close>, where the summary of the generator loss is built: no
  optimization step and no inference tensor has been assigned at that point.
\<close>

theorem build_with_other_G_type_raises_at_generator_summary:
  assumes "G \<noteq> 1" and "G \<noteq> 2"
  shows "fst (build_GAN_network I G (build_VAE_network (init I i z k b lr)))
           = Some (AttributeError ''L_G'') \<and>
         fst (build I G (init I i z k b lr)) = Some (AttributeError ''L_G'') \<and>
         L_G (snd (build I G (init I i z k b lr))) = None \<and>
         L_G_summary (snd (build I G (init I i z k b lr))) = None \<and>
         vae_train_op (snd (build I G (init I i z k b lr))) = None \<and>
         disc_train_op (snd (build I G (init I i z k b lr))) = None \<and>
         gen_train_op (snd (build I G (init I i z k b lr))) = None \<and>
         latent_space (snd (build I G (init I i z k b lr))) = None \<and>
         generated_imgs (snd (build I G (init I i z k b lr))) = None"
  using assms by (simp add: build_defs)

theorem build_with_other_G_type_raises_at_generator_summary_witness:
  "fst (build_GAN_network example_imports 3 (build_VAE_network (init example_imports 1 1 1 1 (1 / 100))))
     = Some (AttributeError ''L_G'') \<and>
   fst (build example_imports 3 (init example_imports 1 1 1 1 (1 / 100))) = Some (AttributeError ''L_G'') \<and>
   L_G (snd (build example_imports 3 (init example_imports 1 1 1 1 (1 / 100)))) = None \<and>
   gen_train_op (snd (build example_imports 3 (init example_imports 1 1 1 1 (1 / 100)))) = None"
  using build_with_other_G_type_raises_at_generator_summary
    [where G = 3 and I = example_imports and i = 1 and z = 1 and k = 1 and b = 1 and lr = "1 / 100"]
  by simp

text \<open>
  With \<open>G_type = 3\<close> the failure is not the one of \<open>_build_train_ops\<close> after a normal
  return of \<open>_build_GAN_network\<close>: the reconstruction and discriminator steps, which
  \<open>_build_train_ops\<close> assigns before the generator step, are absent.
\<close>

theorem build_fails_before_the_train_ops_counterexample:
  "\<not> (fst (build_GAN_network example_imports 3
              (build_VAE_network (init example_imports 1 1 1 1 (1 / 100)))) = None \<and>
       fst (build_train_ops example_imports
              (snd (build_GAN_network example_imports 3
                      (build_VAE_network (init example_imports 1 1 1 1 (1 / 100))))))
         = Some (AttributeError ''L_G'')) \<and>
   vae_train_op (snd (build example_imports 3 (init example_imports 1 1 1 1 (1 / 100)))) = None \<and>
   disc_train_op (snd (build example_imports 3 (init example_imports 1 1 1 1 (1 / 100)))) = None"
  by (simp add: build_defs)

section \<open>Rounding to float32\<close>

lemma ulp32_pos: "0 < ulp32 x"
  by (simp add: ulp32_def)

lemma round_half_even_le: "z \<le> of_int K \<Longrightarrow> round_half_even z \<le> K"
  unfolding round_half_even_def Let_def by (auto; linarith)

lemma round_half_even_ge: "of_int K \<le> z \<Longrightarrow> K \<le> round_half_even z"
  unfolding round_half_even_def Let_def by (auto; linarith)

lemma round_half_even_of_int: "round_half_even (of_int k) = k"
  by (simp add: round_half_even_def)


lemma round32_nonneg: "0 \<le> y \<Longrightarrow> nonneg32 (round32 y)"
proof -
  assume y: "0 \<le> y"
  have "0 \<le> y / ulp32 y" using y ulp32_pos [of y] by simp
  then have "0 \<le> round_half_even (y / ulp32 y)"
    using round_half_even_ge [of 0 "y / ulp32 y"] by simp
  then have "0 \<le> of_int (round_half_even (y / ulp32 y)) * ulp32 y"
    using ulp32_pos [of y] by simp
  then show ?thesis
    by (simp add: round32_def Let_def)
qed

lemma round32_0: "round32 0 = Fin 0"
  by (simp add: round32_def)

lemma finite_within_mono: "finite_within B v \<Longrightarrow> B \<le> C \<Longrightarrow> finite_within C v"
  by (cases v) simp_all

lemma finite_withinE: "finite_within B v \<Longrightarrow> \<exists>r. v = Fin r \<and> \<bar>r\<bar> \<le> B"
  by (cases v) simp_all

lemma floor_log2_less:
  assumes "y \<noteq> 0" and "\<bar>y\<bar> < 2 ^ k"
  shows "\<lfloor>log 2 \<bar>y\<bar>\<rfloor> < int k"
proof -
  have "\<bar>y\<bar> < 2 powr real k" using assms(2) by (simp add: powr_realpow)
  then have "log 2 \<bar>y\<bar> < real k" using assms(1) by (simp add: log_less_iff)
  then show ?thesis by (simp add: floor_less_iff)
qed

lemma round32_bounded:
  assumes y: "\<bar>y\<bar> \<le> real N * 2 ^ q" and N: "N < 2 ^ 24" and B: "real N * 2 ^ q < 2 ^ 128"
  shows "finite_within (real N * 2 ^ q) (round32 y)"
proof (cases "y = 0")
  case True
  then show ?thesis using y by (simp add: round32_0)
next
  case False
  define e where "e = max \<lfloor>log 2 \<bar>y\<bar>\<rfloor> (- 126)"
  define u where "u = ulp32 y"
  define m where "m = round_half_even (y / u)"
  have u: "u = 2 powr of_int (e - 23)" and upos: "0 < u"
    by (simp_all add: u_def ulp32_def e_def)
  have "real N < 2 ^ 24" using N by (metis of_nat_less_iff of_nat_numeral of_nat_power)
  then have a: "real N * 2 ^ q < 2 ^ 24 * 2 ^ q" by simp
  have "\<bar>y\<bar> < 2 ^ 24 * 2 ^ q" by (rule le_less_trans [OF y a])
  then have "\<bar>y\<bar> < 2 ^ (24 + q)" by (simp only: power_add)
  then have "\<lfloor>log 2 \<bar>y\<bar>\<rfloor> < int (24 + q)" using False by (rule floor_log2_less [rotated])
  then have e: "e - 23 \<le> int q" by (simp add: e_def)
  define K where "K = int N * 2 ^ nat (int q - (e - 23))"
  have "(2::real) ^ nat (int q - (e - 23)) = 2 powr of_int (int q - (e - 23))"
    using e by (simp add: powr_realpow [symmetric])
  then have "of_int K * u = real N * (2 powr of_int (int q - (e - 23)) * 2 powr of_int (e - 23))"
    by (simp add: K_def u)
  also have "\<dots> = real N * 2 powr real q"
    by (simp add: powr_add [symmetric])
  finally have Ku: "of_int K * u = real N * 2 ^ q"
    by (simp add: powr_realpow)
  have yu: "y / u \<le> of_int K" "of_int (- K) \<le> y / u"
    using y Ku upos by (simp_all add: field_simps abs_le_iff)
  have "m \<le> K" "- K \<le> m"
    unfolding m_def using yu by (simp_all add: round_half_even_le round_half_even_ge)
  then have "\<bar>of_int m\<bar> \<le> (of_int K :: real)" by linarith
  then have "\<bar>of_int m * u\<bar> \<le> of_int K * u"
    using upos by (simp add: abs_mult mult_right_mono)
  then have r: "\<bar>of_int m * u\<bar> \<le> real N * 2 ^ q" using Ku by simp
  then have "\<not> 2 ^ 128 \<le> of_int m * u" "\<not> of_int m * u \<le> - (2 ^ 128)"
    using B by linarith+
  then show ?thesis
    using False r by (simp add: round32_def Let_def m_def u_def)
qed

lemma ulp32_ge_min: "1 / 2 ^ 149 \<le> ulp32 y"
proof -
  have "(- 149 :: real) \<le> of_int (max \<lfloor>log 2 \<bar>y\<bar>\<rfloor> (- 126) - 23)" by simp
  then have "2 powr (- 149) \<le> ulp32 y"
    unfolding ulp32_def by (subst powr_le_cancel_iff) simp_all
  then show ?thesis by (simp add: powr_neg_numeral)
qed

lemma ulp32_le_self:
  assumes "1 / 2 ^ 149 \<le> y"
  shows "ulp32 y \<le> y"
proof -
  have "(0 :: real) < 1 / 2 ^ 149" by simp
  then have ypos: "0 < y" using assms by linarith
  show ?thesis
  proof (cases "- 126 \<le> \<lfloor>log 2 \<bar>y\<bar>\<rfloor>")
    case True
    then have "max \<lfloor>log 2 \<bar>y\<bar>\<rfloor> (- 126) = \<lfloor>log 2 \<bar>y\<bar>\<rfloor>" by simp
    then have "ulp32 y = 2 powr of_int (\<lfloor>log 2 \<bar>y\<bar>\<rfloor> - 23)"
      by (simp only: ulp32_def)
    also have "\<dots> = 2 powr of_int (\<lfloor>log 2 y\<rfloor> - 23)"
      using ypos by simp
    also have "\<dots> \<le> 2 powr log 2 y"
      by (subst powr_le_cancel_iff) (simp, linarith)
    also have "\<dots> = y" using ypos by simp
    finally show ?thesis .
  next
    case False
    then have "max \<lfloor>log 2 \<bar>y\<bar>\<rfloor> (- 126) = - 126" by simp
    then have "ulp32 y = 2 powr of_int (- 126 - 23)"
      by (simp only: ulp32_def)
    then have "ulp32 y = 2 powr (- 149)" by simp
    then show ?thesis using assms by (simp add: powr_neg_numeral)
  qed
qed

lemma round32_positive:
  assumes lo: "1 / 2 ^ 149 \<le> y" and hi: "y \<le> 2"
  shows "\<exists>r. round32 y = Fin r \<and> 1 / 2 ^ 149 \<le> r \<and> r \<le> 2"
proof -
  have "(0 :: real) < 1 / 2 ^ 149" by simp
  then have ypos: "0 < y" using lo by linarith
  have "finite_within (real 2 * 2 ^ 0) (round32 y)"
    using hi ypos by (intro round32_bounded) simp_all
  then obtain r where r: "round32 y = Fin r" "\<bar>r\<bar> \<le> 2"
    by (auto dest: finite_withinE)
  have "of_int 1 \<le> y / ulp32 y"
    using ulp32_le_self [OF lo] ulp32_pos [of y] by (simp add: field_simps)
  then have "1 \<le> round_half_even (y / ulp32 y)" by (rule round_half_even_ge)
  then have "(1 :: real) \<le> of_int (round_half_even (y / ulp32 y))"
    by (metis of_int_1 of_int_le_iff)
  then have "ulp32 y \<le> of_int (round_half_even (y / ulp32 y)) * ulp32 y"
    using ulp32_pos [of y] by (simp add: field_simps)
  then have "1 / 2 ^ 149 \<le> of_int (round_half_even (y / ulp32 y)) * ulp32 y"
    using ulp32_ge_min [of y] by linarith
  moreover have "r = of_int (round_half_even (y / ulp32 y)) * ulp32 y"
    using r(1) ypos by (simp add: round32_def Let_def split: if_splits)
  ultimately show ?thesis using r by auto
qed

lemma round32_Fin_pos_ge_min:
  assumes "round32 t = Fin e" and "0 < e"
  shows "1 / 2 ^ 149 \<le> e"
proof -
  have t: "t \<noteq> 0" using assms by (auto simp: round32_0)
  then have e: "e = of_int (round_half_even (t / ulp32 t)) * ulp32 t"
    using assms(1) by (simp add: round32_def Let_def split: if_splits)
  then have "0 < (of_int (round_half_even (t / ulp32 t)) :: real)"
    using assms(2) ulp32_pos [of t] by (simp add: zero_less_mult_iff)
  then have "0 < round_half_even (t / ulp32 t)" by simp
  then have "1 \<le> round_half_even (t / ulp32 t)" by simp
  then have "(1 :: real) \<le> of_int (round_half_even (t / ulp32 t))"
    by (metis of_int_1 of_int_le_iff)
  then have "ulp32 t \<le> e"
    unfolding e using ulp32_pos [of t] by (simp add: field_simps)
  then show ?thesis using ulp32_ge_min [of t] by linarith
qed

lemma ln_bound:
  fixes r :: real
  assumes "1 / 2 ^ 149 \<le> r" and "r \<le> 2"
  shows "\<bar>ln r\<bar> \<le> 149"
proof -
  have "(0 :: real) < 1 / 2 ^ 149" by simp
  then have rpos: "0 < r" using assms(1) by linarith
  have ln2: "ln (2 :: real) \<le> 1" using ln_le_minus_one [of "2 :: real"] by simp
  have "ln r \<le> ln 2" using assms(2) rpos by simp
  moreover have "ln (2 powr (- 149) :: real) \<le> ln r"
    using assms(1) rpos by (subst ln_le_cancel_iff) (simp_all add: powr_neg_numeral)
  moreover have "ln (2 powr (- 149) :: real) = - 149 * ln 2"
    by (simp only: ln_powr)
  ultimately show ?thesis using ln2 by (simp add: abs_le_iff)
qed

section \<open>The reconstruction loss in float32\<close>





lemma sub32_Fin: "sub32 (Fin a) (Fin b) = round32 (a - b)"
  by (simp add: sub32_def)







lemma floor_log2_eqI:
  assumes "0 < x" and "2 powr of_int e \<le> x" and "x < 2 powr of_int (e + 1)"
  shows "\<lfloor>log 2 x\<rfloor> = e"
  using assms by (simp add: floor_log_eq_powr_iff)




lemma elementwise_singleton: "elementwise f [[a]] [[b]] = Inr [[f a b]]"
  by (simp add: elementwise_def nrows_def ncols_def bcast_dim_def pick_def)


section \<open>The adversarial losses in float32\<close>

lemma finite_within_neg32: "finite_within B v \<Longrightarrow> finite_within B (neg32 v)"
  by (cases v) simp_all

lemma round32_unit_interval:
  assumes "0 \<le> y" and "y \<le> 1"
  shows "\<exists>r. round32 y = Fin r \<and> 0 \<le> r \<and> r \<le> 1"
proof -
  have "finite_within (real 1 * 2 ^ 0) (round32 y)"
    using assms by (intro round32_bounded) simp_all
  then obtain r where r: "round32 y = Fin r" "\<bar>r\<bar> \<le> 1"
    by (auto dest: finite_withinE)
  moreover have "nonneg32 (round32 y)" using assms(1) by (rule round32_nonneg)
  ultimately show ?thesis by auto
qed

lemma log32_guarded:
  assumes a: "0 \<le> a" "a \<le> 1" and eps: "round32 t = Fin e" "0 < e" "e \<le> 1"
  shows "finite_within 149 (log32 (add32 (Fin a) (round32 t)))"
proof -
  have emin: "1 / 2 ^ 149 \<le> e" using eps(1,2) by (rule round32_Fin_pos_ge_min)
  have "1 / 2 ^ 149 \<le> a + e" "a + e \<le> 2" using a eps(3) emin by linarith+
  then obtain r where r: "round32 (a + e) = Fin r" "1 / 2 ^ 149 \<le> r" "r \<le> 2"
    using round32_positive by blast
  have "(0 :: real) < 1 / 2 ^ 149" by simp
  then have rpos: "0 < r" using r(2) by linarith
  have "\<bar>ln r\<bar> \<le> real 149 * 2 ^ 0" using ln_bound [OF r(2,3)] by simp
  then have "finite_within (real 149 * 2 ^ 0) (round32 (ln r))"
    by (rule round32_bounded) simp_all
  then show ?thesis
    using rpos by (simp add: eps(1) r(1))
qed

lemma log32_guarded_complement:
  assumes a: "0 \<le> a" "a \<le> 1" and eps: "round32 t = Fin e" "0 < e" "e \<le> 1"
  shows "finite_within 149 (log32 (add32 (sub32 (Fin 1) (Fin a)) (round32 t)))"
proof -
  obtain r where r: "round32 (1 - a) = Fin r" "0 \<le> r" "r \<le> 1"
    using round32_unit_interval [of "1 - a"] a by auto
  show ?thesis
    using log32_guarded [OF r(2,3) eps] by (simp add: sub32_Fin r(1))
qed

lemma add32_bounded:
  assumes "finite_within A a" and "finite_within B b"
    and "A + B \<le> real N * 2 ^ q" and "N < 2 ^ 24" and "real N * 2 ^ q < 2 ^ 128"
  shows "finite_within (real N * 2 ^ q) (add32 a b)"
proof -
  obtain x y where xy: "a = Fin x" "\<bar>x\<bar> \<le> A" "b = Fin y" "\<bar>y\<bar> \<le> B"
    using assms(1,2) by (auto dest!: finite_withinE)
  have "\<bar>x + y\<bar> \<le> real N * 2 ^ q" using xy(2,4) assms(3) by linarith
  then have "finite_within (real N * 2 ^ q) (round32 (x + y))"
    using assms(4,5) by (rule round32_bounded)
  then show ?thesis by (simp add: xy)
qed

lemma foldl_add32_bounded:
  assumes "list_all (finite_within 512) vs" and "finite_within (512 * real j) acc"
    and "j + length vs < 2 ^ 24"
  shows "finite_within (512 * real (j + length vs)) (foldl add32 acc vs)"
  using assms
proof (induction vs arbitrary: acc j)
  case Nil
  then show ?case by simp
next
  case (Cons v vs)
  have j: "Suc j < 2 ^ 24" using Cons.prems(3) by simp
  then have "real (Suc j) < 2 ^ 24" by (metis of_nat_less_iff of_nat_numeral of_nat_power)
  then have "real (Suc j) * 2 ^ 9 < 2 ^ 24 * 2 ^ 9" by simp
  also have "\<dots> < (2 :: real) ^ 128" by simp
  finally have B: "real (Suc j) * 2 ^ 9 < 2 ^ 128" .
  have "finite_within (real (Suc j) * 2 ^ 9) (add32 acc v)"
    using Cons.prems(1,2) j B by (intro add32_bounded [where A = "512 * real j" and B = 512]) simp_all
  then have "finite_within (512 * real (Suc j)) (add32 acc v)" by (simp add: mult.commute)
  from Cons.IH [OF _ this] Cons.prems(1,3) show ?case by simp
qed

lemma reduce_mean32_bounded:
  assumes "list_all (finite_within 512) vs" and "vs \<noteq> []" and "length vs < 2 ^ 24"
  shows "finite_within 512 (reduce_mean32 vs)"
proof -
  have "finite_within (512 * real (0 + length vs)) (foldl add32 (Fin 0) vs)"
    using assms(1,3) by (intro foldl_add32_bounded) simp_all
  then obtain s where s: "sum32 vs = Fin s" "\<bar>s\<bar> \<le> 512 * real (length vs)"
    by (auto simp: sum32_def dest!: finite_withinE)
  have len: "0 < real (length vs)" using assms(2) by simp
  have "\<bar>s / real (length vs)\<bar> \<le> 512"
    using s(2) len by (simp add: field_simps)
  then have "\<bar>s / real (length vs)\<bar> \<le> real 1 * 2 ^ 9" by simp
  then have "finite_within (real 1 * 2 ^ 9) (round32 (s / real (length vs)))"
    by (rule round32_bounded) simp_all
  then show ?thesis
    using assms(2) by (simp add: reduce_mean32_def div_count32_def s(1))
qed

lemma list_all_concat_grid:
  "(\<And>i j. i < n \<Longrightarrow> j < c \<Longrightarrow> P (g i j))
     \<Longrightarrow> list_all P (concat (map (\<lambda>i. map (g i) [0..<c]) [0..<n]))"
  by (auto simp: list_all_iff)

lemma concat_grid_nonempty:
  "0 < n \<Longrightarrow> 0 < c \<Longrightarrow> concat (map (\<lambda>i. map (g i) [0..<c]) [0..<n]) \<noteq> []"
  using length_concat_grid [of g c n] by (metis length_0_conv mult_is_0 not_less_zero)

lemma finite_within_Fin: "finite_within B v \<Longrightarrow> \<exists>a. v = Fin a"
  by (cases v) simp_all

text \<open>
  Claim C6. Whatever the logits, also where the computed sigmoid is exactly 0 or 1, the
  float32 losses \<open>L_D\<close> and \<open>L_G\<close> (both variants) are finite, provided the epsilon
  \<open>TINY\<close> is positive as a float32 (and at most 1), the two logit batches have one
  shape, and there are fewer than \<open>2 ^ 24\<close> logits.
\<close>

theorem losses32_finite_by_epsilon:
  assumes sg: "\<forall>x. 0 \<le> sigmoid32 x \<and> sigmoid32 x \<le> 1"
    and eps: "round32 t = Fin e" "0 < e" "e \<le> 1"
    and tl: "has_shape true_logits n c" and fl: "has_shape fake_logits n c"
    and n: "0 < n" and c: "0 < c" and count: "n * c < 2 ^ 24"
  shows "\<exists>a b d. L_D32 sigmoid32 t true_logits fake_logits = Inr (Fin a) \<and>
                 L_G1_32 sigmoid32 t fake_logits = Fin b \<and>
                 L_G2_32 sigmoid32 t fake_logits = Fin d"
proof -
  have s01: "0 \<le> sigmoid32 x" "sigmoid32 x \<le> 1" for x using sg by simp_all
  note lg = log32_guarded [OF s01 eps] and lgc = log32_guarded_complement [OF s01 eps]
  have B: "real 512 * 2 ^ 0 < (2 :: real) ^ 128" by simp
  have dterm: "finite_within 512
      (add32 (log32 (add32 (Fin (sigmoid32 x)) (round32 t)))
             (log32 (add32 (sub32 (Fin 1) (Fin (sigmoid32 y))) (round32 t))))" for x y
    using add32_bounded [OF lg [of x] lgc [of y], of 512 0] by simp
  have g1term: "finite_within 512
      (sub32 (Fin 1) (log32 (add32 (Fin (sigmoid32 x)) (round32 t))))" for x
  proof -
    have one: "finite_within 1 (Fin 1)" by simp
    have "finite_within 149 (neg32 (log32 (add32 (Fin (sigmoid32 x)) (round32 t))))"
      using lg [of x] by (rule finite_within_neg32)
    from add32_bounded [OF one this, of 512 0] show ?thesis by (simp add: sub32_def)
  qed
  have g2term: "finite_within 512 (log32 (add32 (Fin (sigmoid32 x)) (round32 t)))" for x
    using lg [of x] by (rule finite_within_mono) simp
  have len: "length (concat (map (\<lambda>i. map (g i) [0..<c]) [0..<n])) < 2 ^ 24"
    for g :: "nat \<Rightarrow> nat \<Rightarrow> f32"
    using count by (simp add: length_concat_grid)
  have mean: "finite_within 512 (reduce_mean32 (concat (map (\<lambda>i. map (g i) [0..<c]) [0..<n])))"
    if "\<And>i j. finite_within 512 (g i j)" for g
    using that by (intro reduce_mean32_bounded list_all_concat_grid concat_grid_nonempty n c len)
  have "L_D32 sigmoid32 t true_logits fake_logits
          = Inr (neg32 (reduce_mean32 (concat (map (\<lambda>i. map (\<lambda>j.
              add32 (log32 (add32 (Fin (sigmoid32 (true_logits ! i ! j))) (round32 t)))
                    (log32 (add32 (sub32 (Fin 1) (Fin (sigmoid32 (fake_logits ! i ! j))))
                              (round32 t)))) [0..<c]) [0..<n]))))"
    by (simp add: L_D32_def map_grid [OF tl] map_grid [OF fl] elementwise_grid)
  moreover have "finite_within 512 (neg32 (reduce_mean32 (concat (map (\<lambda>i. map (\<lambda>j.
              add32 (log32 (add32 (Fin (sigmoid32 (true_logits ! i ! j))) (round32 t)))
                    (log32 (add32 (sub32 (Fin 1) (Fin (sigmoid32 (fake_logits ! i ! j))))
                              (round32 t)))) [0..<c]) [0..<n]))))"
    by (intro finite_within_neg32 mean dterm)
  ultimately have D: "\<exists>a. L_D32 sigmoid32 t true_logits fake_logits = Inr (Fin a)"
    by (auto dest: finite_within_Fin)
  have "finite_within 512 (L_G1_32 sigmoid32 t fake_logits)"
    unfolding L_G1_32_def map_grid [OF fl] by (intro mean g1term)
  then have G1: "\<exists>b. L_G1_32 sigmoid32 t fake_logits = Fin b" by (rule finite_within_Fin)
  have "finite_within 512 (L_G2_32 sigmoid32 t fake_logits)"
    unfolding L_G2_32_def map_grid [OF fl] by (intro finite_within_neg32 mean g2term)
  then have G2: "\<exists>d. L_G2_32 sigmoid32 t fake_logits = Fin d" by (rule finite_within_Fin)
  show ?thesis using D G1 G2 by blast
qed

lemma saturated_sigmoid_range: "0 \<le> saturated_sigmoid x \<and> saturated_sigmoid x \<le> 1"
  using tf_sigmoid_pos [of x] tf_sigmoid_lt_1 [of x] by (simp add: saturated_sigmoid_def)

lemma round32_example_TINY: "round32 (1 / 2 ^ 27) = Fin (1 / 2 ^ 27)"
proof -
  have e: "\<lfloor>log 2 \<bar>1 / 2 ^ 27 :: real\<bar>\<rfloor> = - 27"
    by (rule floor_log2_eqI) (simp_all add: powr_neg_numeral)
  have u: "ulp32 (1 / 2 ^ 27) = 1 / 2 ^ 50"
    unfolding ulp32_def e by (simp add: powr_neg_numeral)
  have q: "1 / 2 ^ 27 / (1 / 2 ^ 50) = (of_int 8388608 :: real)"
    by simp
  show ?thesis
    unfolding round32_def Let_def u q round_half_even_of_int by simp
qed

theorem losses32_finite_by_epsilon_witness:
  "(\<forall>x. 0 \<le> saturated_sigmoid x \<and> saturated_sigmoid x \<le> 1) \<and>
   round32 (1 / 2 ^ 27) = Fin (1 / 2 ^ 27) \<and>
   saturated_sigmoid (- 1000) = 0 \<and> saturated_sigmoid 1000 = 1 \<and>
   (\<exists>a b d. L_D32 saturated_sigmoid (1 / 2 ^ 27) [[- 1000]] [[1000]] = Inr (Fin a) \<and>
            L_G1_32 saturated_sigmoid (1 / 2 ^ 27) [[1000]] = Fin b \<and>
            L_G2_32 saturated_sigmoid (1 / 2 ^ 27) [[1000]] = Fin d)"
proof -
  have sg: "\<forall>x. 0 \<le> saturated_sigmoid x \<and> saturated_sigmoid x \<le> 1"
    using saturated_sigmoid_range by blast
  have pos: "(0 :: real) < 1 / 2 ^ 27" "(1 :: real) / 2 ^ 27 \<le> 1" by simp_all
  have t: "has_shape [[- 1000 :: real]] 1 1" and f: "has_shape [[1000 :: real]] 1 1"
    by (simp_all add: has_shape_def)
  have "\<exists>a b d. L_D32 saturated_sigmoid (1 / 2 ^ 27) [[- 1000]] [[1000]] = Inr (Fin a) \<and>
            L_G1_32 saturated_sigmoid (1 / 2 ^ 27) [[1000]] = Fin b \<and>
            L_G2_32 saturated_sigmoid (1 / 2 ^ 27) [[1000]] = Fin d"
    by (rule losses32_finite_by_epsilon [OF sg round32_example_TINY pos t f]) simp_all
  then show ?thesis
    using sg round32_example_TINY by (simp add: saturated_sigmoid_def)
qed

text \<open>
  The guard is what keeps the losses finite: with an epsilon of 0 a saturated sigmoid
  gives an infinite loss.
\<close>

lemma without_epsilon_saturation_gives_infinite_loss:
  "L_G2_32 saturated_sigmoid 0 [[- 1000]] = PInf \<and>
   L_D32 saturated_sigmoid 0 [[- 1000]] [[1000]] = Inr PInf"
  by (simp add: L_G2_32_def L_D32_def elementwise_singleton saturated_sigmoid_def round32_0
      sub32_def reduce_mean32_def sum32_def div_count32_def)

section \<open>Repeated inference\<close>

text \<open>
  Claim C8. With an encoder as the spec describes it, a call of \<open>get_latent_space\<close> on a
  built object leaves the session as it was, random state included, and a second call
  with the same input returns the same output.
\<close>

theorem get_latent_space_repeats_its_output:
  assumes enc: "inf_encoder self0 = spec_network inference training vs"
    and built: "self = build_inference self0"
    and first: "get_latent_space self sess xs = (out, sess')"
  shows "sess' = sess \<and> get_latent_space self sess' xs = (out, sess')"
proof -
  have l: "inf_latent_space self
             = Some (seeded_apply (spec_network inference training vs) False
                       (seeded_placeholder (inf_X self0)))"
    and x: "inf_X self = inf_X self0"
    by (simp_all add: built build_inference_def Let_def enc)
  have keep: "snd (seeded_apply (spec_network inference training vs) False
                     (seeded_placeholder p) fd st g) = g" for p fd st g
    by (simp add: seeded_apply_def seeded_placeholder_def spec_network_def split: sum.splits)
  have "snd (seeded_run (seeded_apply (spec_network inference training vs) False
                     (seeded_placeholder p)) fd s) = s" for p fd and s :: seeded_session
    using keep [of p fd "variables s" "random_state s"]
    by (simp add: seeded_run_def case_prod_beta)
  then have "sess' = sess"
    using first by (simp add: get_latent_space_def l) (metis snd_conv)
  then show ?thesis using first by simp
qed

theorem get_latent_space_repeats_its_output_witness:
  "get_latent_space example_inference_aae example_seeded_session [[1, 2]]
     = (Inr [[1, 2]], example_seeded_session) \<and>
   get_latent_space example_inference_aae example_seeded_session [[1, 2]]
     = (Inr [[1, 2]], example_seeded_session)"
proof -
  have f: "get_latent_space example_inference_aae example_seeded_session [[1, 2]]
             = (Inr [[1, 2]], example_seeded_session)"
    by (simp add: get_latent_space_def example_inference_aae_def build_inference_def Let_def
        dropout_encoder_def plain_decoder_def spec_network_def seeded_apply_def
        seeded_placeholder_def read_placeholder_def seeded_run_def feeds_ok_def
        example_seeded_session_def)
  have e: "inf_encoder \<lparr> inf_X = (''X_inputs'', 2), inf_encoder = dropout_encoder,
         inf_decoder = plain_decoder, inf_q_z = None, inf_recon_imgs = None,
         inf_latent_space = None \<rparr>
       = spec_network (\<lambda>st x. Inr x)
           (\<lambda>st g x. (Inr (if even g then x else map (map (\<lambda>v. 0)) x), Suc g)) [''enc/w'']"
    by (simp add: dropout_encoder_def)
  from get_latent_space_repeats_its_output [OF e example_inference_aae_def f] f
  show ?thesis by simp
qed

text \<open>
  This is not so for every fetch: \<open>get_reconstructed_images\<close> runs the subgraph built
  with \<open>is_training = True\<close>, and with an encoder that drops units in training mode two
  calls with the same input return different images.
\<close>

lemma get_reconstructed_images_may_differ:
  "fst (get_reconstructed_images example_inference_aae example_seeded_session [[1, 2]])
     = Inr [[1, 2]] \<and>
   fst (get_reconstructed_images example_inference_aae
          (snd (get_reconstructed_images example_inference_aae example_seeded_session [[1, 2]]))
          [[1, 2]])
     = Inr [[0, 0]]"
  by (simp add: get_reconstructed_images_def example_inference_aae_def build_inference_def Let_def
      dropout_encoder_def plain_decoder_def spec_network_def seeded_apply_def
      seeded_placeholder_def read_placeholder_def seeded_run_def feeds_ok_def
      example_seeded_session_def)

end
